theory Spec2Isabelle
  imports Complex_Main
begin

section \<open>Python values, exceptions and module outcomes\<close>

text \<open>
  The module \<^verbatim>\<open>plugins/modules/system/aix_lvol.py\<close> is Python 3 (it uses f-strings and
  \<^verbatim>\<open>match[1]\<close>).  Python integers are unbounded and are modelled by \<^typ>\<open>int\<close>.  A Python
  \<^verbatim>\<open>str\<close> is a sequence of code points; the model covers the code points below 256, one
  \<^typ>\<open>char\<close> each.

  A call of \<^verbatim>\<open>module.exit_json\<close> or \<^verbatim>\<open>module.fail_json\<close> ends the process, so
  it is an outcome of the run and not a value.  An exception that nothing catches ends the run as
  well, without any report of the module; and \<^verbatim>\<open>main\<close> can return without having
  called either function.
\<close>

datatype py_exn = IndexError | ValueError | ZeroDivisionError | OverflowError | UnboundLocalError

datatype outcome =
    ExitJson bool string
  | FailJson string "(int \<times> string \<times> string) option"
  | Uncaught py_exn
  | NoResult

datatype 'a result = Return 'a | Stop outcome

section \<open>Characters and integer literals\<close>

definition code :: "char \<Rightarrow> nat" where
  "code c = of_char c"

definition is_digit :: "char \<Rightarrow> bool" where
  "is_digit c = (48 \<le> code c \<and> code c \<le> 57)"

text \<open>Unicode white space below code point 256: what \<^verbatim>\<open>\s\<close> matches.\<close>

definition is_space :: "char \<Rightarrow> bool" where
  "is_space c = (code c \<in> {9, 10, 11, 12, 13, 28, 29, 30, 31, 32, 133, 160})"

text \<open>
  The white space that \<^verbatim>\<open>int()\<close> strips: below code point 127 only the ASCII white space
  (the separators 28 to 31 are not stripped), above it the Unicode white space.
\<close>

definition is_int_space :: "char \<Rightarrow> bool" where
  "is_int_space c = (code c \<in> {9, 10, 11, 12, 13, 32, 133, 160})"

text \<open>
  \<^verbatim>\<open>\w\<close> on a \<^verbatim>\<open>str\<close> pattern: the underscore and every alphanumeric code point
  (\<^verbatim>\<open>str.isalnum\<close>), which below 256 are the ASCII letters and digits, the ordinal
  indicators, the micro sign, the superscript digits, the vulgar fractions and the accented letters.
\<close>

definition is_word :: "char \<Rightarrow> bool" where
  "is_word c = (let n = code c in
     (48 \<le> n \<and> n \<le> 57) \<or> (65 \<le> n \<and> n \<le> 90) \<or> n = 95 \<or> (97 \<le> n \<and> n \<le> 122) \<or>
     n \<in> {170, 178, 179, 181, 185, 186, 188, 189, 190} \<or>
     (192 \<le> n \<and> n \<le> 214) \<or> (216 \<le> n \<and> n \<le> 246) \<or> (248 \<le> n \<and> n \<le> 255))"

text \<open>
  \<^verbatim>\<open>size[-1].upper()\<close> is compared with \<^verbatim>\<open>'M'\<close>, \<^verbatim>\<open>'G'\<close> and \<^verbatim>\<open>'T'\<close> only.
  The ASCII letters are mapped as Python maps them; for any other code point Python's result is
  never one of these three letters, and neither is the unchanged character returned here.
\<close>

definition upper :: "char \<Rightarrow> char" where
  "upper c = (if 97 \<le> code c \<and> code c \<le> 122 then char_of (code c - 32) else c)"

fun index :: "'a list \<Rightarrow> 'a \<Rightarrow> nat option" where
  "index [] y = None"
| "index (x # xs) y = (if x = y then Some 0 else map_option Suc (index xs y))"

definition digit_val :: "char \<Rightarrow> int" where
  "digit_val c = int (code c) - 48"

definition digits_val :: "string \<Rightarrow> int" where
  "digits_val ds = foldl (\<lambda>acc c. 10 * acc + digit_val c) 0 ds"

fun no_double_underscore :: "string \<Rightarrow> bool" where
  "no_double_underscore (a # b # cs) =
     (\<not> (a = CHR ''_'' \<and> b = CHR ''_'') \<and> no_double_underscore (b # cs))"
| "no_double_underscore cs = True"

text \<open>
  \<^verbatim>\<open>int(s)\<close> in base 10: optional white space, an optional sign, digits with single
  underscores between them, optional white space.  \<open>None\<close> is the \<^verbatim>\<open>ValueError\<close>.
  (The interpreter's optional limit on the number of digits of a literal is not modelled.)
\<close>

definition py_int :: "string \<Rightarrow> int option" where
  "py_int s =
     (let t = dropWhile is_int_space s;
          neg = (t \<noteq> [] \<and> hd t = CHR ''-'');
          u = (if t \<noteq> [] \<and> (hd t = CHR ''+'' \<or> hd t = CHR ''-'') then tl t else t);
          body = takeWhile (\<lambda>c. is_digit c \<or> c = CHR ''_'') u;
          rest = dropWhile (\<lambda>c. is_digit c \<or> c = CHR ''_'') u
      in if body = [] \<or> hd body = CHR ''_'' \<or> last body = CHR ''_''
            \<or> \<not> no_double_underscore body \<or> \<not> list_all is_int_space rest
         then None
         else let v = digits_val (filter is_digit body) in Some (if neg then - v else v))"

function str_nat :: "nat \<Rightarrow> string" where
  "str_nat n = (if n < 10 then [char_of (48 + n)] else str_nat (n div 10) @ [char_of (48 + n mod 10)])"
  by pat_completeness auto
termination
  by (relation "measure id") auto

declare str_nat.simps [simp del]

definition str_int :: "int \<Rightarrow> string" where
  "str_int i = (if i < 0 then CHR ''-'' # str_nat (nat (- i)) else str_nat (nat i))"

section \<open>The size converter\<close>

text \<open>
  \<^verbatim>\<open>convert_size(module, size)\<close>.  \<^verbatim>\<open>size[-1]\<close> raises \<^verbatim>\<open>IndexError\<close> on the empty string;
  \<^verbatim>\<open>units.index\<close> raises the \<^verbatim>\<open>ValueError\<close> that the function catches and reports with
  \<^verbatim>\<open>fail_json\<close>; \<^verbatim>\<open>int(size[:-1])\<close> is outside the \<^verbatim>\<open>try\<close>, so its \<^verbatim>\<open>ValueError\<close>
  is not caught.
\<close>

definition units :: "char list" where
  "units = [CHR ''M'', CHR ''G'', CHR ''T'']"

definition convert_size :: "string \<Rightarrow> int result" where
  "convert_size sz =
     (if sz = [] then Stop (Uncaught IndexError)
      else case index units (upper (last sz)) of
             None \<Rightarrow> Stop (FailJson ''No valid size unit specified.'' None)
           | Some i \<Rightarrow>
               (case py_int (butlast sz) of
                  None \<Rightarrow> Stop (Uncaught ValueError)
                | Some n \<Rightarrow> Return (n * 1024 ^ i)))"

section \<open>Rounding to the physical partition size\<close>

text \<open>
  \<^verbatim>\<open>round_ppsize\<close> computes \<^verbatim>\<open>int(base * round(float(x) / base))\<close> in binary64
  floating point.  A finite double is modelled by the rational number it denotes.
  \<open>to_double\<close> rounds a rational to the nearest double, ties to the even significand, with
  53 bits of significand and the least exponent \<open>-1074\<close>.
\<close>

function bit_length :: "int \<Rightarrow> nat" where
  "bit_length n = (if n \<le> 0 then 0 else Suc (bit_length (n div 2)))"
  by pat_completeness auto
termination
  by (relation "measure nat") auto

declare bit_length.simps [simp del]

definition pow2 :: "int \<Rightarrow> rat" where
  "pow2 e = (if 0 \<le> e then 2 ^ nat e else 1 / 2 ^ nat (- e))"

definition floor_log2 :: "rat \<Rightarrow> int" where
  "floor_log2 q =
     (let (a, b) = quotient_of q;
          d = int (bit_length a) - int (bit_length b)
      in if pow2 d \<le> q then d else d - 1)"

definition round_half_even :: "rat \<Rightarrow> int" where
  "round_half_even q =
     (let f = \<lfloor>q\<rfloor>; d = q - of_int f
      in if d < 1 / 2 then f
         else if 1 / 2 < d then f + 1
         else if even f then f else f + 1)"

definition round_pos :: "rat \<Rightarrow> rat" where
  "round_pos q =
     (let e = max (floor_log2 q - 52) (- 1074)
      in of_int (round_half_even (q / pow2 e)) * pow2 e)"

definition to_double :: "rat \<Rightarrow> rat" where
  "to_double q = (if q = 0 then 0 else if q < 0 then - round_pos (- q) else round_pos q)"

text \<open>\<^verbatim>\<open>float(n)\<close> of an integer: \<^verbatim>\<open>OverflowError\<close> when the nearest double is infinite.\<close>

definition py_float :: "int \<Rightarrow> rat result" where
  "py_float n =
     (let r = to_double (of_int n)
      in if 2 ^ 1024 \<le> \<bar>r\<bar> then Stop (Uncaught OverflowError) else Return r)"

text \<open>
  \<^verbatim>\<open>float(x) / base\<close> converts the integer \<^verbatim>\<open>base\<close> to a double first and raises
  \<^verbatim>\<open>ZeroDivisionError\<close> when it is zero.  The divisor is then an integer of magnitude at
  least 1, so the quotient cannot overflow.  \<^verbatim>\<open>round\<close> of a double is the nearest integer,
  ties to even, as a Python integer, and the product with \<^verbatim>\<open>base\<close> is exact.
\<close>

definition round_ppsize :: "int \<Rightarrow> int \<Rightarrow> int result" where
  "round_ppsize x base =
     (case py_float x of
        Stop e \<Rightarrow> Stop e
      | Return fx \<Rightarrow>
          (case py_float base of
             Stop e \<Rightarrow> Stop e
           | Return fb \<Rightarrow>
               if fb = 0 then Stop (Uncaught ZeroDivisionError)
               else let new_size = base * round_half_even (to_double (fx / fb))
                    in Return (if new_size < x then new_size + base else new_size)))"

section \<open>Regular expressions\<close>

text \<open>
  The patterns of the module use literal characters, the classes \<^verbatim>\<open>\s\<close>, \<^verbatim>\<open>\w\<close>,
  \<^verbatim>\<open>\d\<close> and \<^verbatim>\<open>.\<close>, the greedy repetitions \<^verbatim>\<open>+\<close> and \<^verbatim>\<open>*\<close> of one class, and
  groups around one repeated class.  \<open>Rep k m cap\<close> is the greedy repetition of class \<open>k\<close>,
  at least \<open>m\<close> times, capturing when \<open>cap\<close> holds.  \<open>match_here\<close> is the backtracking
  matcher anchored at the start of the string: a repetition takes as many characters as it can and
  gives them back one by one while the rest of the pattern fails.  It returns the captured groups
  in order.  \<open>search\<close> is \<^verbatim>\<open>re.search\<close>: the match at the leftmost start position.
\<close>

datatype cls = Space | Word | Digit | Any

fun in_cls :: "cls \<Rightarrow> char \<Rightarrow> bool" where
  "in_cls Space c = is_space c"
| "in_cls Word c = is_word c"
| "in_cls Digit c = is_digit c"
| "in_cls Any c = (code c \<noteq> 10)"

datatype atom = Lit char | Rep cls nat bool

definition open_group :: "bool \<Rightarrow> string list \<Rightarrow> string list" where
  "open_group cap gs = (if cap then [] # gs else gs)"

definition add_char :: "bool \<Rightarrow> char \<Rightarrow> string list \<Rightarrow> string list" where
  "add_char cap x gs = (if cap then (case gs of [] \<Rightarrow> [[x]] | g # gs' \<Rightarrow> (x # g) # gs') else gs)"

function match_here :: "atom list \<Rightarrow> string \<Rightarrow> string list option" where
  "match_here [] s = Some []"
| "match_here (Lit c # as) [] = None"
| "match_here (Lit c # as) (x # xs) = (if x = c then match_here as xs else None)"
| "match_here (Rep k m cap # as) [] =
     (if m = 0 then map_option (open_group cap) (match_here as []) else None)"
| "match_here (Rep k m cap # as) (x # xs) =
     (if in_cls k x
      then (case match_here (Rep k (m - 1) cap # as) xs of
              Some gs \<Rightarrow> Some (add_char cap x gs)
            | None \<Rightarrow>
                if m = 0 then map_option (open_group cap) (match_here as (x # xs)) else None)
      else if m = 0 then map_option (open_group cap) (match_here as (x # xs)) else None)"
  by pat_completeness auto
termination
  by (relation "measure (\<lambda>(p, s). length p + length s)") auto

fun search :: "atom list \<Rightarrow> string \<Rightarrow> string list option" where
  "search p [] = match_here p []"
| "search p (x # xs) =
     (case match_here p (x # xs) of Some gs \<Rightarrow> Some gs | None \<Rightarrow> search p xs)"

text \<open>\<^verbatim>\<open>match[i]\<close> for a group \<open>i \<ge> 1\<close> of a successful match.\<close>

definition group :: "string list \<Rightarrow> nat \<Rightarrow> string" where
  "group gs i = gs ! (i - 1)"

definition lit :: "string \<Rightarrow> atom list" where
  "lit s = map Lit s"

definition re_lv_name :: "atom list" where
  "re_lv_name = lit ''LOGICAL VOLUME:'' @ [Rep Space 1 False, Rep Word 1 True, Rep Space 1 False]
     @ lit ''VOLUME GROUP:'' @ [Rep Space 1 False, Rep Word 1 True]"

definition re_lps :: "atom list" where
  "re_lps = lit ''LPs:'' @ [Rep Space 1 False, Rep Digit 1 True, Rep Any 0 False] @ lit ''PPs''"

definition re_pp_size :: "atom list" where
  "re_pp_size = lit ''PP SIZE:'' @ [Rep Space 1 False, Rep Digit 1 True]"

definition re_policy :: "atom list" where
  "re_policy = lit ''INTER-POLICY:'' @ [Rep Space 1 False, Rep Word 1 True]"

definition re_vg_name :: "atom list" where
  "re_vg_name = lit ''VOLUME GROUP:'' @ [Rep Space 1 False, Rep Word 1 True]"

definition re_total :: "atom list" where
  "re_total = lit ''TOTAL PP'' @ [Rep Any 0 False, Lit CHR ''('', Rep Digit 1 True]"

definition re_free :: "atom list" where
  "re_free = lit ''FREE PP'' @ [Rep Any 0 False, Lit CHR ''('', Rep Digit 1 True]"

section \<open>Lines\<close>

text \<open>
  \<^verbatim>\<open>str.splitlines()\<close>: a line ends at a line feed, a carriage return (with the line feed
  that follows it, if any), a vertical tab, a form feed, a file, group or record separator, or a
  next-line character; the line ends are dropped, and a final line end opens no empty line.
\<close>

definition is_linebreak :: "char \<Rightarrow> bool" where
  "is_linebreak c = (code c \<in> {10, 11, 12, 13, 28, 29, 30, 133})"

fun splitlines_from :: "string \<Rightarrow> string \<Rightarrow> string list" where
  "splitlines_from cur [] = (if cur = [] then [] else [rev cur])"
| "splitlines_from cur (c # cs) =
     (if code c = 13 then
        (case cs of
           [] \<Rightarrow> [rev cur]
         | d # ds \<Rightarrow> if code d = 10 then rev cur # splitlines_from [] ds
                     else rev cur # splitlines_from [] (d # ds))
      else if is_linebreak c then rev cur # splitlines_from [] cs
      else splitlines_from (c # cur) cs)"

definition splitlines :: "string \<Rightarrow> string list" where
  "splitlines s = splitlines_from [] s"

section \<open>The fact parsers\<close>

text \<open>
  The dictionary returned by \<^verbatim>\<open>parse_lv\<close> has the keys \<^verbatim>\<open>name\<close>, \<^verbatim>\<open>vg\<close>,
  \<^verbatim>\<open>size\<close> and \<^verbatim>\<open>policy\<close>; the one returned by \<^verbatim>\<open>parse_vg\<close> has the keys
  \<^verbatim>\<open>name\<close>, \<^verbatim>\<open>size\<close>, \<^verbatim>\<open>free\<close> and \<^verbatim>\<open>pp_size\<close>.  Both are records here, the
  fields prefixed by the dictionary they belong to.
\<close>

record this_lv =
  name_lv :: string
  vg_lv :: string
  size_lv :: int
  policy_lv :: string

record this_vg =
  name_vg :: string
  size_vg :: int
  free_vg :: int
  pp_size_vg :: int

text \<open>
  The local variables of the loop of \<^verbatim>\<open>parse_lv\<close>.  \<^verbatim>\<open>name\<close> starts as \<^verbatim>\<open>None\<close>;
  the others are unbound until a line assigns them, which is \<open>None\<close> here.
\<close>

record lv_vars =
  v_name :: "string option"
  v_vg :: "string option"
  v_lps :: "int option"
  v_pp_size :: "int option"
  v_policy :: "string option"

definition lv_init :: lv_vars where
  "lv_init = \<lparr>v_name = None, v_vg = None, v_lps = None, v_pp_size = None, v_policy = None\<rparr>"

text \<open>
  One turn of the loop: the first pattern that matches the line assigns its variables and the
  \<^verbatim>\<open>continue\<close> skips the later patterns.  \<^verbatim>\<open>int(match[1])\<close> can raise \<^verbatim>\<open>ValueError\<close>.
\<close>

definition lv_line :: "lv_vars \<Rightarrow> string \<Rightarrow> lv_vars result" where
  "lv_line v line =
     (case search re_lv_name line of
        Some gs \<Rightarrow> Return (v\<lparr>v_name := Some (group gs 1), v_vg := Some (group gs 2)\<rparr>)
      | None \<Rightarrow>
     (case search re_lps line of
        Some gs \<Rightarrow>
          (case py_int (group gs 1) of
             None \<Rightarrow> Stop (Uncaught ValueError)
           | Some n \<Rightarrow> Return (v\<lparr>v_lps := Some n\<rparr>))
      | None \<Rightarrow>
     (case search re_pp_size line of
        Some gs \<Rightarrow>
          (case py_int (group gs 1) of
             None \<Rightarrow> Stop (Uncaught ValueError)
           | Some n \<Rightarrow> Return (v\<lparr>v_pp_size := Some n\<rparr>))
      | None \<Rightarrow>
     (case search re_policy line of
        Some gs \<Rightarrow> Return (v\<lparr>v_policy := Some (group gs 1)\<rparr>)
      | None \<Rightarrow> Return v))))"

fun lv_loop :: "lv_vars \<Rightarrow> string list \<Rightarrow> lv_vars result" where
  "lv_loop v [] = Return v"
| "lv_loop v (line # lines) =
     (case lv_line v line of Stop e \<Rightarrow> Stop e | Return v' \<Rightarrow> lv_loop v' lines)"

text \<open>
  The \<^verbatim>\<open>return\<close> of \<^verbatim>\<open>parse_lv\<close>: \<^verbatim>\<open>None\<close> when \<^verbatim>\<open>name\<close> is \<^verbatim>\<open>None\<close> or empty;
  otherwise the dictionary is built, and reading a variable that no line assigned raises
  \<^verbatim>\<open>UnboundLocalError\<close>.
\<close>

definition lv_return :: "lv_vars \<Rightarrow> this_lv option result" where
  "lv_return v =
     (case v_name v of
        None \<Rightarrow> Return None
      | Some name \<Rightarrow>
          if name = [] then Return None
          else (case (v_vg v, v_lps v, v_pp_size v, v_policy v) of
                  (Some vg, Some lps, Some pp_size, Some policy) \<Rightarrow>
                    Return (Some \<lparr>name_lv = name, vg_lv = vg, size_lv = lps * pp_size,
                                  policy_lv = policy\<rparr>)
                | _ \<Rightarrow> Stop (Uncaught UnboundLocalError)))"

definition parse_lv :: "string \<Rightarrow> this_lv option result" where
  "parse_lv data =
     (case lv_loop lv_init (splitlines data) of Stop e \<Rightarrow> Stop e | Return v \<Rightarrow> lv_return v)"

text \<open>The local variables of \<^verbatim>\<open>parse_vg\<close>, all unbound before the loop.\<close>

record vg_vars =
  w_name :: "string option"
  w_size :: "int option"
  w_pp_size :: "int option"
  w_free :: "int option"

definition vg_init :: vg_vars where
  "vg_init = \<lparr>w_name = None, w_size = None, w_pp_size = None, w_free = None\<rparr>"

definition vg_line :: "vg_vars \<Rightarrow> string \<Rightarrow> vg_vars result" where
  "vg_line w line =
     (case search re_vg_name line of
        Some gs \<Rightarrow> Return (w\<lparr>w_name := Some (group gs 1)\<rparr>)
      | None \<Rightarrow>
     (case search re_total line of
        Some gs \<Rightarrow>
          (case py_int (group gs 1) of
             None \<Rightarrow> Stop (Uncaught ValueError)
           | Some n \<Rightarrow> Return (w\<lparr>w_size := Some n\<rparr>))
      | None \<Rightarrow>
     (case search re_pp_size line of
        Some gs \<Rightarrow>
          (case py_int (group gs 1) of
             None \<Rightarrow> Stop (Uncaught ValueError)
           | Some n \<Rightarrow> Return (w\<lparr>w_pp_size := Some n\<rparr>))
      | None \<Rightarrow>
     (case search re_free line of
        Some gs \<Rightarrow>
          (case py_int (group gs 1) of
             None \<Rightarrow> Stop (Uncaught ValueError)
           | Some n \<Rightarrow> Return (w\<lparr>w_free := Some n\<rparr>))
      | None \<Rightarrow> Return w))))"

fun vg_loop :: "vg_vars \<Rightarrow> string list \<Rightarrow> vg_vars result" where
  "vg_loop w [] = Return w"
| "vg_loop w (line # lines) =
     (case vg_line w line of Stop e \<Rightarrow> Stop e | Return w' \<Rightarrow> vg_loop w' lines)"

definition vg_return :: "vg_vars \<Rightarrow> this_vg result" where
  "vg_return w =
     (case (w_name w, w_size w, w_free w, w_pp_size w) of
        (Some name, Some sz, Some free, Some pp_size) \<Rightarrow>
          Return \<lparr>name_vg = name, size_vg = sz, free_vg = free, pp_size_vg = pp_size\<rparr>
      | _ \<Rightarrow> Stop (Uncaught UnboundLocalError))"

definition parse_vg :: "string \<Rightarrow> this_vg result" where
  "parse_vg data =
     (case vg_loop vg_init (splitlines data) of Stop e \<Rightarrow> Stop e | Return w \<Rightarrow> vg_return w)"

section \<open>The module and its run\<close>

text \<open>
  \<^verbatim>\<open>module.params\<close> after the argument specification has been applied: \<^verbatim>\<open>size\<close> is
  the only parameter without a default, so it alone can be \<^verbatim>\<open>None\<close>.
\<close>

record params =
  p_vg :: string
  p_lv :: string
  p_lv_type :: string
  p_size :: "string option"
  p_opts :: string
  p_copies :: int
  p_state :: string
  p_policy :: string
  p_pvs :: "string list"

text \<open>
  \<^verbatim>\<open>AnsibleModule\<close> is not part of the repository; what \<^verbatim>\<open>main\<close> uses of it is a
  parameter of the model.  \<open>get_bin_path\<close> with \<^verbatim>\<open>required=True\<close> either returns the path
  of a command or fails the run with a message (\<open>Inl\<close>); \<open>run_command\<close> returns the exit code,
  the standard output and the standard error of a command line.
\<close>

record module =
  params :: params
  check_mode :: bool
  get_bin_path :: "string \<Rightarrow> string + string"
  run_command :: "string \<Rightarrow> int \<times> string \<times> string"

text \<open>A run yields the command lines it has executed, in order, and its outcome.\<close>

type_synonym run = "string list \<times> outcome"

fun join :: "string \<Rightarrow> string list \<Rightarrow> string" where
  "join sep [] = []"
| "join sep [x] = x"
| "join sep (x # y # ys) = x @ sep @ join sep (y # ys)"

text \<open>Python's \<^verbatim>\<open>not size\<close>: \<^verbatim>\<open>None\<close> and the empty string are false.\<close>

definition not_size :: "string option \<Rightarrow> bool" where
  "not_size sz = (sz = None \<or> sz = Some [])"

text \<open>
  The values that \<^verbatim>\<open>main\<close> derives from the parameters before it runs any command
  (lines 237 to 241).
\<close>

definition pv_list :: "module \<Rightarrow> string" where
  "pv_list m = join '' '' (p_pvs (params m))"

definition lv_policy :: "module \<Rightarrow> string" where
  "lv_policy m = (if p_policy (params m) = ''maximum'' then ''x'' else ''m'')"

definition test_opt :: "module \<Rightarrow> string" where
  "test_opt m = (if check_mode m then ''echo '' else [])"

text \<open>The command lines, as the f-strings of lines 247, 268, 291, 308, 326 and 357 build them.\<close>

definition lsvg_line :: "module \<Rightarrow> string \<Rightarrow> string" where
  "lsvg_line m lsvg_cmd = lsvg_cmd @ '' '' @ p_vg (params m)"

definition lslv_line :: "module \<Rightarrow> string \<Rightarrow> string" where
  "lslv_line m lslv_cmd = lslv_cmd @ '' '' @ p_lv (params m)"

definition mklv_line :: "module \<Rightarrow> int \<Rightarrow> string \<Rightarrow> string" where
  "mklv_line m lv_size mklv_cmd =
     test_opt m @ '' '' @ mklv_cmd @ '' -t '' @ p_lv_type (params m) @ '' -y '' @ p_lv (params m)
       @ '' -c '' @ str_int (p_copies (params m)) @ ''  -e '' @ lv_policy m @ '' ''
       @ p_opts (params m) @ '' '' @ p_vg (params m) @ '' '' @ str_int lv_size @ ''M ''
       @ pv_list m"

definition rmlv_line :: "module \<Rightarrow> this_lv \<Rightarrow> string \<Rightarrow> string" where
  "rmlv_line m this_lv rmlv_cmd = test_opt m @ '' '' @ rmlv_cmd @ '' -f '' @ name_lv this_lv"

definition chlv_line :: "module \<Rightarrow> this_lv \<Rightarrow> string \<Rightarrow> string" where
  "chlv_line m this_lv chlv_cmd =
     test_opt m @ '' '' @ chlv_cmd @ '' -e '' @ lv_policy m @ '' '' @ name_lv this_lv"

definition extendlv_line :: "module \<Rightarrow> int \<Rightarrow> this_lv \<Rightarrow> string \<Rightarrow> string" where
  "extendlv_line m lv_size this_lv extendlv_cmd =
     test_opt m @ '' '' @ extendlv_cmd @ '' '' @ p_lv (params m) @ '' ''
       @ str_int (lv_size - size_lv this_lv) @ ''M''"

text \<open>The reports that end a run without a mutating command (lines 278, 283, 345, 352, 374, 379).\<close>

definition no_size_given :: outcome where
  "no_size_given = FailJson ''No size given.'' None"

definition not_enough_space :: "this_vg \<Rightarrow> outcome" where
  "not_enough_space this_vg =
     FailJson (''Not enough free space in volume group '' @ name_vg this_vg @ '': ''
               @ str_int (free_vg this_vg) @ '' MB free.'') None"

definition wrong_group :: "module \<Rightarrow> this_lv \<Rightarrow> outcome" where
  "wrong_group m this_lv =
     FailJson (''Logical volume '' @ p_lv (params m) @ '' already exist in volume group ''
               @ vg_lv this_lv) None"

definition already_exists :: "module \<Rightarrow> outcome" where
  "already_exists m = ExitJson False (''Logical volume '' @ p_lv (params m) @ '' already exist.'')"

definition no_shrinking :: "module \<Rightarrow> this_lv \<Rightarrow> outcome" where
  "no_shrinking m this_lv =
     FailJson (''No shrinking of Logical Volume '' @ p_lv (params m)
               @ '' permitted. Current size: '' @ str_int (size_lv this_lv) @ '' MB'') None"

definition size_already :: "module \<Rightarrow> int \<Rightarrow> outcome" where
  "size_already m lv_size =
     ExitJson False (''Logical volume '' @ p_lv (params m) @ '' size is already ''
                     @ str_int lv_size @ ''MB.'')"

text \<open>
  The pattern shared by the four mutating commands: look the command up, run the command line,
  report \<^verbatim>\<open>changed=True\<close> on exit code 0 and fail with the diagnostics otherwise.
\<close>

definition run_action ::
  "module \<Rightarrow> string list \<Rightarrow> string \<Rightarrow> (string \<Rightarrow> string) \<Rightarrow> string \<Rightarrow> string \<Rightarrow> run" where
  "run_action m cmds bin mk_cmd ok_msg fail_msg =
     (case get_bin_path m bin of
        Inl msg \<Rightarrow> (cmds, FailJson msg None)
      | Inr path \<Rightarrow>
          (let cmd = mk_cmd path; (rc, out, err) = run_command m cmd
           in if rc = 0 then (cmds @ [cmd], ExitJson True ok_msg)
              else (cmds @ [cmd], FailJson fail_msg (Some (rc, out, err)))))"

definition create_lv :: "module \<Rightarrow> int \<Rightarrow> string list \<Rightarrow> run" where
  "create_lv m lv_size cmds =
     run_action m cmds ''mklv'' (mklv_line m lv_size)
       (''Logical volume '' @ p_lv (params m) @ '' created.'')
       (''Creating logical volume '' @ p_lv (params m) @ '' failed.'')"

definition remove_lv :: "module \<Rightarrow> this_lv \<Rightarrow> string list \<Rightarrow> run" where
  "remove_lv m this_lv cmds =
     run_action m cmds ''rmlv'' (rmlv_line m this_lv)
       (''Logical volume '' @ p_lv (params m) @ '' deleted.'')
       (''Failed to remove logical volume '' @ p_lv (params m) @ ''.'')"

definition change_policy :: "module \<Rightarrow> this_lv \<Rightarrow> string list \<Rightarrow> run" where
  "change_policy m this_lv cmds =
     run_action m cmds ''chlv'' (chlv_line m this_lv)
       (''Logical volume '' @ p_lv (params m) @ '' policy changed: '' @ p_policy (params m) @ ''.'')
       (''Failed to change logical volume '' @ p_lv (params m) @ '' policy.'')"

definition extend_lv :: "module \<Rightarrow> int \<Rightarrow> this_lv \<Rightarrow> string list \<Rightarrow> run" where
  "extend_lv m lv_size this_lv cmds =
     run_action m cmds ''extendlv'' (extendlv_line m lv_size this_lv)
       (''Logical volume '' @ p_lv (params m) @ '' size extended to '' @ str_int lv_size @ ''MB.'')
       (''Unable to resize '' @ p_lv (params m) @ '' to '' @ str_int lv_size @ ''MB.'')"

text \<open>
  Lines 277 to 382 of \<^verbatim>\<open>main\<close>: the decision taken from the parsed facts.  \<open>lv_size\<close> is
  \<open>None\<close> while the variable is unbound (no size was given), and reading it then raises
  \<^verbatim>\<open>UnboundLocalError\<close>; \<open>cmds\<close> are the command lines executed so far.  When the volume
  is not there and the state is \<^verbatim>\<open>absent\<close>, no branch reports anything and \<^verbatim>\<open>main\<close>
  returns.
\<close>

definition reconcile ::
  "module \<Rightarrow> this_vg \<Rightarrow> int option \<Rightarrow> this_lv option \<Rightarrow> string list \<Rightarrow> run" where
  "reconcile m this_vg lv_size this_lv cmds =
     (let vg = p_vg (params m); sz = p_size (params m); policy = p_policy (params m);
          state = p_state (params m)
      in
      if state = ''present'' \<and> not_size sz \<and> this_lv = None
      then (cmds, no_size_given)
      else case this_lv of
        None \<Rightarrow>
          if state = ''present'' then
            (case lv_size of
               None \<Rightarrow> (cmds, Uncaught UnboundLocalError)
             | Some lv_size \<Rightarrow>
                 if lv_size > free_vg this_vg then (cmds, not_enough_space this_vg)
                 else create_lv m lv_size cmds)
          else (cmds, NoResult)
      | Some this_lv \<Rightarrow>
          if state = ''absent'' then remove_lv m this_lv cmds
          else if policy_lv this_lv \<noteq> policy then change_policy m this_lv cmds
          else if vg \<noteq> vg_lv this_lv then (cmds, wrong_group m this_lv)
          else if not_size sz then (cmds, already_exists m)
          else
            (case lv_size of
               None \<Rightarrow> (cmds, Uncaught UnboundLocalError)
             | Some lv_size \<Rightarrow>
                 if lv_size > size_lv this_lv then extend_lv m lv_size this_lv cmds
                 else if lv_size < size_lv this_lv then (cmds, no_shrinking m this_lv)
                 else (cmds, size_already m lv_size)))"

text \<open>Lines 263 to 265: the target size, computed only when \<^verbatim>\<open>size\<close> is not \<^verbatim>\<open>None\<close>.\<close>

definition target_size :: "string option \<Rightarrow> this_vg \<Rightarrow> int option result" where
  "target_size sz this_vg =
     (case sz of
        None \<Rightarrow> Return None
      | Some s \<Rightarrow>
          (case convert_size s of
             Stop e \<Rightarrow> Stop e
           | Return n \<Rightarrow>
               (case round_ppsize n (pp_size_vg this_vg) of
                  Stop e \<Rightarrow> Stop e
                | Return r \<Rightarrow> Return (Some r))))"

text \<open>
  \<^verbatim>\<open>main\<close>, lines 243 to 275, followed by the decision.  Each report command is run once;
  a failed volume group report ends the run, and so does a failed volume report when the state
  is \<^verbatim>\<open>absent\<close>.
\<close>

definition main :: "module \<Rightarrow> run" where
  "main m =
     (let vg = p_vg (params m); lv = p_lv (params m); sz = p_size (params m);
          state = p_state (params m)
      in
      case get_bin_path m ''lsvg'' of
        Inl msg \<Rightarrow> ([], FailJson msg None)
      | Inr lsvg_cmd \<Rightarrow>
      (case get_bin_path m ''lslv'' of
        Inl msg \<Rightarrow> ([], FailJson msg None)
      | Inr lslv_cmd \<Rightarrow>
      (let c1 = lsvg_line m lsvg_cmd; (rc, vg_info, err) = run_command m c1
       in
       if rc \<noteq> 0 then
         (if state = ''absent''
          then ([c1], ExitJson False (''Volume group '' @ vg @ '' does not exist.''))
          else ([c1], FailJson (''Volume group '' @ vg @ '' does not exist.'')
                        (Some (rc, vg_info, err))))
       else
       (case parse_vg vg_info of
          Stop e \<Rightarrow> ([c1], e)
        | Return this_vg \<Rightarrow>
       (case target_size sz this_vg of
          Stop e \<Rightarrow> ([c1], e)
        | Return lv_size \<Rightarrow>
       (let c2 = lslv_line m lslv_cmd; (rc, lv_info, err) = run_command m c2
        in
        if rc \<noteq> 0 \<and> state = ''absent''
        then ([c1, c2], ExitJson False (''Logical Volume '' @ lv @ '' does not exist.''))
        else
        (case parse_lv lv_info of
           Stop e \<Rightarrow> ([c1, c2], e)
         | Return this_lv \<Rightarrow> reconcile m this_vg lv_size this_lv [c1, c2])))))))"

section \<open>Example reports and modules\<close>

text \<open>
  A volume group report and a volume report with the labelled fields of \<^verbatim>\<open>lsvg\<close> and
  \<^verbatim>\<open>lslv\<close>, and a module whose commands are all found, whose \<^verbatim>\<open>lsvg\<close> succeeds with the
  group report and whose \<^verbatim>\<open>lslv\<close> answers as given.  Every other command succeeds.
\<close>

definition nl :: string where
  "nl = [CHR 0x0A]"

definition example_vg_info :: string where
  "example_vg_info =
     ''VOLUME GROUP: testvg  VG IDENTIFIER: 00f6'' @ nl @
     ''VG STATE: active  PP SIZE: 4 megabyte(s)'' @ nl @
     ''VG PERMISSION: read/write  TOTAL PPs: 500 (2000 megabytes)'' @ nl @
     ''MAX LVs: 256  FREE PPs: 250 (1000 megabytes)'' @ nl"

definition example_lv_info :: string where
  "example_lv_info =
     ''LOGICAL VOLUME: testlv  VOLUME GROUP: testvg'' @ nl @
     ''MAX LPs: 512  PP SIZE: 4 megabyte(s)'' @ nl @
     ''LPs: 128  PPs: 128'' @ nl @
     ''INTER-POLICY: minimum  RELOCATABLE: yes'' @ nl"

definition example_params :: "string option \<Rightarrow> string \<Rightarrow> string \<Rightarrow> params" where
  "example_params sz state policy =
     \<lparr>p_vg = ''testvg'', p_lv = ''testlv'', p_lv_type = ''jfs2'', p_size = sz, p_opts = [],
      p_copies = 1, p_state = state, p_policy = policy, p_pvs = []\<rparr>"

definition example_module ::
  "string option \<Rightarrow> string \<Rightarrow> string \<Rightarrow> int \<times> string \<times> string \<Rightarrow> module" where
  "example_module sz state policy lslv_result =
     \<lparr>params = example_params sz state policy,
      check_mode = False,
      get_bin_path = (\<lambda>name. Inr (''/usr/sbin/'' @ name)),
      run_command = (\<lambda>cmd. if cmd = ''/usr/sbin/lsvg testvg'' then (0, example_vg_info, [])
                            else if cmd = ''/usr/sbin/lslv testlv'' then lslv_result
                            else (0, [], []))\<rparr>"

section \<open>What the parsers read from a report\<close>

text \<open>
  The groups that a pattern captures: the class and the least length of each capturing repetition,
  in order.
\<close>

fun groups_of :: "atom list \<Rightarrow> (cls \<times> nat) list" where
  "groups_of [] = []"
| "groups_of (Lit c # as) = groups_of as"
| "groups_of (Rep k m cap # as) = (if cap then (k, m) # groups_of as else groups_of as)"

definition group_ok :: "cls \<times> nat \<Rightarrow> string \<Rightarrow> bool" where
  "group_ok km g = (list_all (in_cls (fst km)) g \<and> snd km \<le> length g)"

text \<open>
  The value that one line gives to each variable of the loops, read off \<open>lv_line\<close> and
  \<open>vg_line\<close>: a line counts for the first pattern that matches it, because of the
  \<^verbatim>\<open>continue\<close>.  \<open>latest f lines\<close> is the value given by the last line that gives one, which
  is what the variable holds after the loop.
\<close>

fun latest :: "('a \<Rightarrow> 'b option) \<Rightarrow> 'a list \<Rightarrow> 'b option" where
  "latest f [] = None"
| "latest f (x # xs) = (case latest f xs of Some y \<Rightarrow> Some y | None \<Rightarrow> f x)"

text \<open>An assignment in one turn of a loop: a new value replaces the old one.\<close>

definition keep :: "'a option \<Rightarrow> 'a option \<Rightarrow> 'a option" where
  "keep new old = (case new of Some y \<Rightarrow> Some y | None \<Rightarrow> old)"

definition int_group :: "atom list \<Rightarrow> string \<Rightarrow> int option" where
  "int_group p line = (case search p line of None \<Rightarrow> None | Some gs \<Rightarrow> py_int (group gs 1))"

definition line_lv_name :: "string \<Rightarrow> string option" where
  "line_lv_name line = map_option (\<lambda>gs. group gs 1) (search re_lv_name line)"

definition line_lv_vg :: "string \<Rightarrow> string option" where
  "line_lv_vg line = map_option (\<lambda>gs. group gs 2) (search re_lv_name line)"

definition line_lv_lps :: "string \<Rightarrow> int option" where
  "line_lv_lps line = (if search re_lv_name line \<noteq> None then None else int_group re_lps line)"

definition line_lv_pp_size :: "string \<Rightarrow> int option" where
  "line_lv_pp_size line =
     (if search re_lv_name line \<noteq> None \<or> search re_lps line \<noteq> None then None
      else int_group re_pp_size line)"

definition line_lv_policy :: "string \<Rightarrow> string option" where
  "line_lv_policy line =
     (if search re_lv_name line \<noteq> None \<or> search re_lps line \<noteq> None
         \<or> search re_pp_size line \<noteq> None then None
      else map_option (\<lambda>gs. group gs 1) (search re_policy line))"

definition line_vg_name :: "string \<Rightarrow> string option" where
  "line_vg_name line = map_option (\<lambda>gs. group gs 1) (search re_vg_name line)"

definition line_vg_size :: "string \<Rightarrow> int option" where
  "line_vg_size line = (if search re_vg_name line \<noteq> None then None else int_group re_total line)"

definition line_vg_pp_size :: "string \<Rightarrow> int option" where
  "line_vg_pp_size line =
     (if search re_vg_name line \<noteq> None \<or> search re_total line \<noteq> None then None
      else int_group re_pp_size line)"

definition line_vg_free :: "string \<Rightarrow> int option" where
  "line_vg_free line =
     (if search re_vg_name line \<noteq> None \<or> search re_total line \<noteq> None
         \<or> search re_pp_size line \<noteq> None then None
      else int_group re_free line)"

text \<open>A group report without the line of the free partitions.\<close>

definition example_vg_info_no_free :: string where
  "example_vg_info_no_free =
     ''VOLUME GROUP: testvg  VG IDENTIFIER: 00f6'' @ nl @
     ''VG STATE: active  PP SIZE: 4 megabyte(s)'' @ nl @
     ''VG PERMISSION: read/write  TOTAL PPs: 500 (2000 megabytes)'' @ nl"

section \<open>Properties of the size converter\<close>

lemma code_inj: "code c = code d \<longleftrightarrow> c = d"
  by (simp add: code_def)

lemma upper_eq_iff:
  assumes "65 \<le> code k" "code k \<le> 90" "code l = code k + 32"
  shows "upper u = k \<longleftrightarrow> u = k \<or> u = l"
proof (cases "97 \<le> code u \<and> code u \<le> 122")
  case True
  then have "code u - 32 < 256" by linarith
  then have "(code u - 32) mod 256 = code u - 32" by (rule mod_less)
  then have "code (upper u) = code u - 32"
    using True by (simp add: upper_def code_def)
  then have "upper u = k \<longleftrightarrow> code u = code l"
    using True assms by (auto simp flip: code_inj)
  moreover have "u \<noteq> k" using True assms by auto
  ultimately show ?thesis by (simp add: code_inj)
next
  case False
  then have "u \<noteq> l" using assms by auto
  then show ?thesis using False by (auto simp: upper_def)
qed

lemma upper_cases:
  "upper u = CHR ''M'' \<longleftrightarrow> u = CHR ''M'' \<or> u = CHR ''m''"
  "upper u = CHR ''G'' \<longleftrightarrow> u = CHR ''G'' \<or> u = CHR ''g''"
  "upper u = CHR ''T'' \<longleftrightarrow> u = CHR ''T'' \<or> u = CHR ''t''"
  by (rule upper_eq_iff; simp add: code_def)+

lemma digit_not_space: "is_digit c \<Longrightarrow> \<not> is_int_space c"
  by (auto simp: is_digit_def is_int_space_def)

lemma digit_not_sign: "is_digit c \<Longrightarrow> c \<noteq> CHR ''+'' \<and> c \<noteq> CHR ''-'' \<and> c \<noteq> CHR ''_''"
  by (auto simp: is_digit_def code_def)

lemma no_double_underscore_digits: "list_all is_digit ds \<Longrightarrow> no_double_underscore ds"
  by (induction ds rule: no_double_underscore.induct) (auto dest: digit_not_sign)

lemma py_int_digits:
  assumes "ds \<noteq> []" "list_all is_digit ds"
  shows "py_int ds = Some (digits_val ds)"
proof -
  obtain d ds' where ds: "ds = d # ds'" using assms(1) by (cases ds) auto
  have d: "is_digit d" using assms(2) ds by simp
  have all: "\<forall>c\<in>set ds. is_digit c" using assms(2) by (simp add: list_all_iff)
  have t: "dropWhile is_int_space ds = ds" using d ds by (simp add: digit_not_space)
  have hd: "hd ds \<noteq> CHR ''+''" "hd ds \<noteq> CHR ''-''" "hd ds \<noteq> CHR ''_''"
    using d ds digit_not_sign by auto
  have tk: "takeWhile (\<lambda>c. is_digit c \<or> c = CHR ''_'') ds = ds"
    using all by (simp add: takeWhile_eq_all_conv)
  have dr: "dropWhile (\<lambda>c. is_digit c \<or> c = CHR ''_'') ds = []"
    using all by simp
  have lst: "last ds \<noteq> CHR ''_''"
    using all assms(1) digit_not_sign last_in_set by blast
  have flt: "filter is_digit ds = ds" using all by simp
  have nd: "no_double_underscore ds" by (rule no_double_underscore_digits[OF assms(2)])
  show ?thesis
    unfolding py_int_def Let_def t
    using assms(1) hd lst nd by (simp add: tk dr flt)
qed


lemma index_units:
  "index units x = (if x = CHR ''M'' then Some 0 else if x = CHR ''G'' then Some 1
                    else if x = CHR ''T'' then Some 2 else None)"
  by (simp add: units_def)

text \<open>
  Claim C5.  For a size string made of a non-empty run of decimal digits, denoting the integer
  \<open>N\<close>, followed by one unit character: the converter returns \<open>N\<close> for \<^verbatim>\<open>M\<close> or \<^verbatim>\<open>m\<close>,
  \<open>N * 1024\<close> for \<^verbatim>\<open>G\<close> or \<^verbatim>\<open>g\<close>, \<open>N * 1024\<^sup>2\<close> for \<^verbatim>\<open>T\<close> or \<^verbatim>\<open>t\<close>, and for
  every other unit character it fails the run with the message
  \<^verbatim>\<open>No valid size unit specified.\<close>
\<close>

theorem convert_size_valid:
  assumes "ds \<noteq> []" and "list_all is_digit ds"
  shows "convert_size (ds @ [u]) =
    (if u = CHR ''M'' \<or> u = CHR ''m'' then Return (digits_val ds * 1024 ^ 0)
     else if u = CHR ''G'' \<or> u = CHR ''g'' then Return (digits_val ds * 1024 ^ 1)
     else if u = CHR ''T'' \<or> u = CHR ''t'' then Return (digits_val ds * 1024 ^ 2)
     else Stop (FailJson ''No valid size unit specified.'' None))"
  using py_int_digits[OF assms]
  by (simp add: convert_size_def index_units upper_cases)

theorem convert_size_valid_witness:
  "''512'' \<noteq> [] \<and> list_all is_digit ''512'' \<and> convert_size ''512G'' = Return (512 * 1024)"
  using convert_size_valid[of "''512''" "CHR ''G''"]
  by (simp add: is_digit_def code_def digits_val_def digit_val_def)

text \<open>
  Claim C10 says that every size string whose prefix is not an integer literal raises an exception
  that nothing catches, and never the reported unit failure.  The unit is checked first: on
  \<^verbatim>\<open>1.5X\<close> the prefix is not an integer literal and the run still ends with the reported
  failure \<^verbatim>\<open>No valid size unit specified.\<close>
\<close>

theorem convert_size_bad_prefix_counterexample:
  "py_int ''1.5'' = None \<and>
   convert_size ''1.5X'' = Stop (FailJson ''No valid size unit specified.'' None)"
  by (simp add: convert_size_def index_units upper_def py_int_def is_int_space_def is_digit_def code_def)

lemma py_int_separator: "py_int (CHR 0x1C # ''5'') = None"
  by (simp add: py_int_def is_int_space_def is_digit_def code_def)

text \<open>
  Claim C10, amended.  The empty size string raises \<^verbatim>\<open>IndexError\<close>, and a size string
  whose last character is one of the units \<^verbatim>\<open>M\<close>, \<^verbatim>\<open>G\<close>, \<^verbatim>\<open>T\<close> (in either case) and
  whose prefix is not accepted by \<^verbatim>\<open>int()\<close> raises \<^verbatim>\<open>ValueError\<close>; neither exception is
  caught, so no failure is reported by the module.  When the last character is not one of the
  units, the run fails with the reported message \<^verbatim>\<open>No valid size unit specified.\<close>, whatever
  the prefix is.
\<close>

theorem convert_size_bad_prefix:
  "convert_size [] = Stop (Uncaught IndexError) \<and>
   (py_int p = None \<and> upper u \<in> set units \<longrightarrow>
      convert_size (p @ [u]) = Stop (Uncaught ValueError)) \<and>
   (upper u' \<notin> set units \<longrightarrow>
      convert_size (p' @ [u']) = Stop (FailJson ''No valid size unit specified.'' None))"
  by (auto simp: convert_size_def units_def)

theorem convert_size_bad_prefix_witness:
  "py_int ''1.5'' = None \<and> upper CHR ''G'' \<in> set units \<and>
   convert_size ''1.5G'' = Stop (Uncaught ValueError) \<and>
   upper CHR ''X'' \<notin> set units \<and>
   convert_size ''12X'' = Stop (FailJson ''No valid size unit specified.'' None)"
  using convert_size_bad_prefix[of "''1.5''" "CHR ''G''" "CHR ''X''" "''12''"]
  by (simp add: units_def upper_def py_int_def is_int_space_def is_digit_def code_def)

section \<open>Properties of the rounding\<close>

text \<open>
  A double below \<open>2\<^sup>5\<^sup>3\<close> is rounded with a non-positive exponent, so every integer below
  \<open>2\<^sup>5\<^sup>3\<close> is a double and rounding a rational \<open>q\<close> there stays between \<open>\<lfloor>q\<rfloor>\<close> and
  \<open>\<lceil>q\<rceil>\<close>.
\<close>

lemma bit_length_bounds:
  "0 < n \<Longrightarrow> 2 ^ (bit_length n - 1) \<le> n \<and> n < 2 ^ bit_length n"
proof (induction n rule: bit_length.induct)
  case (1 n)
  show ?case
  proof (cases "n div 2 = 0")
    case True
    then have "n = 1" using 1(2) by presburger
    then show ?thesis by (simp add: bit_length.simps[of 1] bit_length.simps[of 0])
  next
    case False
    then have pos: "0 < n div 2" using 1(2) by presburger
    have ih: "2 ^ (bit_length (n div 2) - 1) \<le> n div 2 \<and> n div 2 < 2 ^ bit_length (n div 2)"
      using 1(1) 1(2) pos by simp
    have bl: "bit_length n = Suc (bit_length (n div 2))"
      using 1(2) by (subst bit_length.simps) simp
    have blpos: "0 < bit_length (n div 2)"
      using pos by (subst bit_length.simps) simp
    then obtain k where k: "bit_length (n div 2) = Suc k" by (cases "bit_length (n div 2)") auto
    from ih k have "2 * 2 ^ k \<le> n" "n < 2 * 2 ^ Suc k" by auto
    then show ?thesis using bl k by simp
  qed
qed

lemma pow2_pos: "0 < pow2 e"
  by (simp add: pow2_def)

lemma pow2_nonpos: "e \<le> 0 \<Longrightarrow> pow2 e = 1 / 2 ^ nat (- e)"
  by (auto simp: pow2_def)

lemma pow2_nonneg: "0 \<le> e \<Longrightarrow> pow2 e = 2 ^ nat e"
  by (auto simp: pow2_def)

lemma round_half_even_cases: "round_half_even y = \<lfloor>y\<rfloor> \<or> round_half_even y = \<lfloor>y\<rfloor> + 1"
  by (simp add: round_half_even_def Let_def)

lemma round_half_even_ge: "of_int n \<le> y \<Longrightarrow> n \<le> round_half_even y"
proof -
  assume "of_int n \<le> y"
  then have "n \<le> \<lfloor>y\<rfloor>" by (simp add: le_floor_iff)
  then show ?thesis using round_half_even_cases[of y] by auto
qed

lemma round_half_even_le: "y \<le> of_int n \<Longrightarrow> round_half_even y \<le> n"
proof (cases "y = of_int \<lfloor>y\<rfloor>")
  case True
  assume "y \<le> of_int n"
  then have "\<lfloor>y\<rfloor> \<le> n" using floor_mono by fastforce
  moreover have "round_half_even y = \<lfloor>y\<rfloor>"
    using True by (simp add: round_half_even_def Let_def)
  ultimately show ?thesis by simp
next
  case False
  assume le: "y \<le> of_int n"
  have "of_int \<lfloor>y\<rfloor> < y" using False of_int_floor_le[of y] by linarith
  then have "of_int \<lfloor>y\<rfloor> < (of_int n :: rat)" using le by linarith
  then have "\<lfloor>y\<rfloor> < n" by simp
  then show ?thesis using round_half_even_cases[of y] by auto
qed

lemma round_half_even_int: "round_half_even (of_int n) = n"
  using round_half_even_ge[of n "of_int n"] round_half_even_le[of "of_int n" n] by simp

lemma floor_log2_le:
  assumes "0 < q" and "q < 2 ^ 53"
  shows "floor_log2 q \<le> 52"
proof -
  obtain a b where qo: "quotient_of q = (a, b)" by (cases "quotient_of q") auto
  have b: "0 < b" using qo by (rule quotient_of_denom_pos)
  have q: "q = of_int a / of_int b" using qo by (rule quotient_of_div)
  have a: "0 < a" using assms(1) b q by (simp add: zero_less_divide_iff)
  let ?d = "int (bit_length a) - int (bit_length b)"
  show ?thesis
  proof (cases "pow2 ?d \<le> q")
    case True
    have "?d \<le> 52"
    proof (rule ccontr)
      assume "\<not> ?d \<le> 52"
      then have d: "53 \<le> ?d" by simp
      then have "(2::rat) ^ 53 \<le> 2 ^ nat ?d" by (intro power_increasing) auto
      then have "2 ^ 53 \<le> pow2 ?d" using d by (simp add: pow2_nonneg)
      then show False using True assms(2) by linarith
    qed
    then show ?thesis using True qo by (simp add: floor_log2_def)
  next
    case False
    have "of_int a < (2::rat) ^ 53 * of_int b"
      using assms(2) b q by (simp add: pos_divide_less_eq)
    then have "a < 2 ^ 53 * b" by (metis of_int_less_iff of_int_mult of_int_numeral of_int_power)
    moreover have "2 ^ (bit_length a - 1) \<le> a" "b < 2 ^ bit_length b"
      using bit_length_bounds a b by auto
    ultimately have "(2::int) ^ (bit_length a - 1) < 2 ^ 53 * 2 ^ bit_length b"
      by (smt (verit) mult_strict_left_mono zero_less_power)
    then have "(2::int) ^ (bit_length a - 1) < 2 ^ (53 + bit_length b)"
      by (simp add: power_add)
    then have "bit_length a - 1 < 53 + bit_length b"
      by (rule power_less_imp_less_exp[rotated]) simp
    then have "?d \<le> 53" by linarith
    then show ?thesis using False qo by (simp add: floor_log2_def)
  qed
qed

lemma round_pos_bounds:
  assumes "0 < q" and "q < 2 ^ 53"
  shows "of_int \<lfloor>q\<rfloor> \<le> round_pos q \<and> round_pos q \<le> of_int \<lceil>q\<rceil>"
proof -
  define e where "e = max (floor_log2 q - 52) (- 1074)"
  define s :: int where "s = 2 ^ nat (- e)"
  have e: "e \<le> 0" using floor_log2_le[OF assms] by (simp add: e_def)
  have s: "0 < s" by (simp add: s_def)
  have p: "pow2 e = 1 / of_int s" using e by (simp add: pow2_nonpos s_def)
  define m where "m = round_half_even (q * of_int s)"
  have rp: "round_pos q = of_int m / of_int s"
    by (simp add: round_pos_def Let_def e_def[symmetric] p m_def)
  have "of_int (\<lfloor>q\<rfloor> * s) \<le> q * of_int s"
    using s by (simp add: mult_right_mono)
  then have lo: "\<lfloor>q\<rfloor> * s \<le> m" unfolding m_def by (rule round_half_even_ge)
  have "q * of_int s \<le> of_int (\<lceil>q\<rceil> * s)"
    using s by (simp add: mult_right_mono)
  then have hi: "m \<le> \<lceil>q\<rceil> * s" unfolding m_def by (rule round_half_even_le)
  have "(of_int (\<lfloor>q\<rfloor> * s) :: rat) \<le> of_int m" using lo by (simp only: of_int_le_iff)
  then have 1: "of_int \<lfloor>q\<rfloor> \<le> (of_int m :: rat) / of_int s"
    using s by (simp add: pos_le_divide_eq)
  have "(of_int m :: rat) \<le> of_int (\<lceil>q\<rceil> * s)" using hi by (simp only: of_int_le_iff)
  then have 2: "(of_int m :: rat) / of_int s \<le> of_int \<lceil>q\<rceil>"
    using s by (simp add: pos_divide_le_eq)
  show ?thesis using 1 2 rp by simp
qed

lemma to_double_bounds:
  assumes "0 \<le> q" and "q < 2 ^ 53"
  shows "of_int \<lfloor>q\<rfloor> \<le> to_double q \<and> to_double q \<le> of_int \<lceil>q\<rceil>"
proof (cases "q = 0")
  case True
  then show ?thesis by (simp add: to_double_def)
next
  case False
  then have "0 < q" using assms(1) by simp
  then show ?thesis using round_pos_bounds[OF _ assms(2)] by (simp add: to_double_def)
qed

lemma to_double_int:
  assumes "0 \<le> n" and "n < 2 ^ 53"
  shows "to_double (of_int n) = of_int n"
proof -
  have "(of_int n :: rat) < 2 ^ 53" using assms(2) by (metis of_int_less_iff of_int_numeral of_int_power)
  then show ?thesis using to_double_bounds[of "of_int n"] assms(1) by simp
qed

lemma py_float_exact:
  assumes "0 \<le> n" and "n < 2 ^ 53"
  shows "py_float n = Return (of_int n)"
proof -
  have "(of_int n :: rat) < 2 ^ 53" using assms(2) by (metis of_int_less_iff of_int_numeral of_int_power)
  moreover have "(2::rat) ^ 53 \<le> 2 ^ 1024" by (intro power_increasing) auto
  ultimately have "\<bar>of_int n :: rat\<bar> < 2 ^ 1024" using assms(1) by simp
  then show ?thesis by (simp add: py_float_def to_double_int[OF assms] Let_def)
qed

lemma round_ppsize_exact:
  assumes "0 < x" and "x < 2 ^ 53" and "0 < base" and "base < 2 ^ 53"
  shows "round_ppsize x base = Return (base * \<lceil>of_int x / of_int base :: rat\<rceil>)"
proof -
  define q :: rat where "q = of_int x / of_int base"
  define k where "k = round_half_even (to_double q)"
  have fx: "py_float x = Return (of_int x)" using assms(1,2) by (intro py_float_exact) auto
  have fb: "py_float base = Return (of_int base)" using assms(3,4) by (intro py_float_exact) auto
  have q0: "0 < q" using assms(1,3) by (simp add: q_def)
  have "q \<le> of_int x"
    using assms(1,3) by (simp add: q_def pos_divide_le_eq mult_le_cancel_left1)
  moreover have "(of_int x :: rat) < 2 ^ 53"
    using assms(2) by (metis of_int_less_iff of_int_numeral of_int_power)
  ultimately have q53: "q < 2 ^ 53" by linarith
  have tb: "of_int \<lfloor>q\<rfloor> \<le> to_double q" "to_double q \<le> of_int \<lceil>q\<rceil>"
    using to_double_bounds[of q] q0 q53 by auto
  have klo: "\<lfloor>q\<rfloor> \<le> k" unfolding k_def using tb(1) by (rule round_half_even_ge)
  have khi: "k \<le> \<lceil>q\<rceil>" unfolding k_def using tb(2) by (rule round_half_even_le)
  have xq: "(of_int x :: rat) = of_int base * q" using assms(3) by (simp add: q_def)
  have res: "round_ppsize x base =
               Return (if base * k < x then base * k + base else base * k)"
    using assms(3) by (simp add: round_ppsize_def fx fb Let_def k_def q_def)
  have up: "x \<le> base * \<lceil>q\<rceil>"
  proof -
    have "(of_int x :: rat) \<le> of_int base * of_int \<lceil>q\<rceil>"
      unfolding xq using assms(3) by (simp add: mult_left_mono)
    then show ?thesis by (metis of_int_le_iff of_int_mult)
  qed
  show ?thesis
  proof (cases "k = \<lceil>q\<rceil>")
    case True
    then show ?thesis using res up by (simp add: q_def)
  next
    case False
    then have kf: "k = \<lfloor>q\<rfloor>" and c: "\<lceil>q\<rceil> = \<lfloor>q\<rfloor> + 1"
      using klo khi ceiling_diff_floor_le_1[of q] by linarith+
    have "q \<noteq> of_int \<lfloor>q\<rfloor>"
      using c ceiling_altdef[of q] by auto
    then have "of_int \<lfloor>q\<rfloor> < q"
      using of_int_floor_le[of q] by linarith
    then have "(of_int base :: rat) * of_int \<lfloor>q\<rfloor> < of_int x"
      unfolding xq using assms(3) by simp
    then have "base * \<lfloor>q\<rfloor> < x" by (metis of_int_less_iff of_int_mult)
    then show ?thesis using res kf c by (simp add: q_def algebra_simps)
  qed
qed

text \<open>
  Claim C6, amended.  For every positive value and every positive base, both below \<open>2\<^sup>5\<^sup>3\<close>
  (the integers that a double represents exactly), \<^verbatim>\<open>round_ppsize\<close> returns a multiple of
  the base that is at least the value, and the least such multiple.
\<close>

theorem round_ppsize_up:
  assumes "0 < x" and "x < 2 ^ 53" and "0 < base" and "base < 2 ^ 53"
  shows "\<exists>r. round_ppsize x base = Return r \<and> r mod base = 0 \<and> x \<le> r \<and> r < x + base"
proof -
  let ?q = "of_int x / of_int base :: rat"
  have r: "round_ppsize x base = Return (base * \<lceil>?q\<rceil>)"
    using assms by (rule round_ppsize_exact)
  have xq: "(of_int x :: rat) = of_int base * ?q" using assms(3) by simp
  have "(of_int x :: rat) \<le> of_int base * of_int \<lceil>?q\<rceil>"
    by (subst xq) (use assms(3) in \<open>simp add: mult_left_mono del: times_divide_eq_right\<close>)
  then have lo: "x \<le> base * \<lceil>?q\<rceil>" by (metis of_int_le_iff of_int_mult)
  have "of_int \<lceil>?q\<rceil> < ?q + 1" using ceiling_correct[of ?q] by linarith
  then have "(of_int base :: rat) * of_int \<lceil>?q\<rceil> < of_int base * (?q + 1)"
    using assms(3) by (simp del: times_divide_eq_right)
  also have "\<dots> = of_int x + of_int base" using assms(3) by (simp add: algebra_simps)
  finally have hi: "base * \<lceil>?q\<rceil> < x + base" by (metis of_int_less_iff of_int_mult of_int_add)
  show ?thesis using r lo hi by simp
qed

theorem round_ppsize_up_witness:
  "(0::int) < 513 \<and> (513::int) < 2 ^ 53 \<and> (0::int) < 4 \<and> (4::int) < 2 ^ 53 \<and>
   (\<exists>r. round_ppsize 513 4 = Return r \<and> r mod 4 = 0 \<and> 513 \<le> r \<and> r < 513 + 4)"
  using round_ppsize_up[of 513 4] by simp

lemma bit_length_numeral:
  "bit_length (numeral k) = Suc (bit_length (numeral k div 2))"
  "bit_length 1 = 1" "bit_length 0 = 0"
  by (simp_all add: bit_length.simps[of "numeral k"] bit_length.simps[of 1] bit_length.simps[of 0])

lemma floor_half_example: "\<lfloor>9007199254740993 / 2 :: rat\<rfloor> = 4503599627370496"
  by (simp add: floor_eq_iff)

lemma float_example: "to_double 18014398509481986 = 18014398509481984"
  by (simp add: to_double_def round_pos_def floor_log2_def bit_length_numeral pow2_def
      round_half_even_def Let_def floor_half_example)

lemma float_example_exact: "to_double 18014398509481984 = 18014398509481984"
  by (simp add: to_double_def round_pos_def floor_log2_def bit_length_numeral pow2_def
      round_half_even_def Let_def)

text \<open>
  Claim C6 says this of every positive value and base.  The quotient is computed in floating
  point: \<open>2\<^sup>5\<^sup>4 + 2\<close> is halfway between two doubles and \<^verbatim>\<open>float\<close> rounds it down to
  \<open>2\<^sup>5\<^sup>4\<close>, so that with base 1 the single correction step of \<^verbatim>\<open>round_ppsize\<close> ends
  one below the value.
\<close>

theorem round_ppsize_under_counterexample:
  "round_ppsize 18014398509481986 1 = Return 18014398509481985 \<and>
   (18014398509481985 :: int) < 18014398509481986"
proof -
  have "py_float 18014398509481986 = Return 18014398509481984"
    using float_example by (simp add: py_float_def Let_def)
  moreover have "py_float 1 = Return 1" using py_float_exact[of 1] by simp
  moreover note float_example_exact
  ultimately have "round_ppsize 18014398509481986 1 = Return 18014398509481985"
    using round_half_even_int[of 18014398509481984] by (simp add: round_ppsize_def Let_def)
  then show ?thesis by simp
qed

section \<open>Properties of the run\<close>

lemma main_reconcile:
  assumes "get_bin_path m ''lsvg'' = Inr lsvg" and "get_bin_path m ''lslv'' = Inr lslv"
    and "run_command m (lsvg_line m lsvg) = (0, vg_info, err1)"
    and "parse_vg vg_info = Return this_vg"
    and "target_size (p_size (params m)) this_vg = Return lv_size"
    and "run_command m (lslv_line m lslv) = (rc, lv_info, err2)"
    and "p_state (params m) = ''present''"
    and "parse_lv lv_info = Return this_lv"
  shows "main m = reconcile m this_vg lv_size this_lv [lsvg_line m lsvg, lslv_line m lslv]"
  using assms by (simp add: main_def Let_def)

lemma convert_size_nonempty: "convert_size s = Return n \<Longrightarrow> s \<noteq> []"
  by (auto simp: convert_size_def)

lemma target_size_Some:
  "convert_size s = Return n \<Longrightarrow> round_ppsize n (pp_size_vg this_vg) = Return t \<Longrightarrow>
   target_size (Some s) this_vg = Return (Some t)"
  by (simp add: target_size_def)

lemma run_action_found:
  "get_bin_path m bin = Inr path \<Longrightarrow>
   run_action m cmds bin mk ok fail =
     (cmds @ [mk path],
      case run_command m (mk path) of
        (rc, out, err) \<Rightarrow> if rc = 0 then ExitJson True ok else FailJson fail (Some (rc, out, err)))"
  by (simp add: run_action_def Let_def split: prod.splits)

text \<open>The example reports and the sizes used with them, evaluated once.\<close>

lemma example_parse_vg:
  "parse_vg example_vg_info =
     Return \<lparr>name_vg = ''testvg'', size_vg = 2000, free_vg = 1000, pp_size_vg = 4\<rparr>"
  by code_simp

lemma example_parse_lv:
  "parse_lv example_lv_info =
     Return (Some \<lparr>name_lv = ''testlv'', vg_lv = ''testvg'', size_lv = 512,
                   policy_lv = ''minimum''\<rparr>)"
  by code_simp

lemma parse_lv_empty: "parse_lv [] = Return None"
  by (simp add: parse_lv_def splitlines_def lv_return_def lv_init_def)

lemma example_convert:
  "convert_size ''512M'' = Return 512"
  "convert_size ''1G'' = Return 1024"
  "convert_size ''256M'' = Return 256"
  "convert_size ''2000M'' = Return 2000"
  by (simp_all add: convert_size_def index_units upper_def py_int_def is_int_space_def is_digit_def
      code_def digits_val_def digit_val_def)

lemma example_round:
  "round_ppsize 512 4 = Return 512"
  "round_ppsize 1024 4 = Return 1024"
  "round_ppsize 256 4 = Return 256"
  "round_ppsize 2000 4 = Return 2000"
  using round_ppsize_exact[of 512 4] round_ppsize_exact[of 1024 4] round_ppsize_exact[of 256 4]
    round_ppsize_exact[of 2000 4]
  by simp_all

lemma example_str_int:
  "str_int 512 = ''512''" "str_int 1 = ''1''" "str_int 1000 = ''1000''" "str_int 1024 = ''1024''"
  by code_simp+

lemmas example_simps =
  example_module_def example_params_def lsvg_line_def lslv_line_def mklv_line_def chlv_line_def
  extendlv_line_def rmlv_line_def test_opt_def lv_policy_def pv_list_def

text \<open>
  Claim C8.  When the state is \<^verbatim>\<open>present\<close>, the volume report shows no volume and no size
  was given, the run fails with \<^verbatim>\<open>No size given.\<close> after the two report commands: no
  mutating command has been looked up or run.
\<close>

theorem missing_size:
  assumes "get_bin_path m ''lsvg'' = Inr lsvg" and "get_bin_path m ''lslv'' = Inr lslv"
    and "run_command m (lsvg_line m lsvg) = (0, vg_info, err1)"
    and "parse_vg vg_info = Return this_vg"
    and "run_command m (lslv_line m lslv) = (rc, lv_info, err2)"
    and "parse_lv lv_info = Return None"
    and "p_state (params m) = ''present''"
    and "p_size (params m) = None"
  shows "main m = ([lsvg_line m lsvg, lslv_line m lslv], no_size_given)"
proof -
  have "target_size (p_size (params m)) this_vg = Return None"
    using assms(8) by (simp add: target_size_def)
  then have "main m = reconcile m this_vg None None [lsvg_line m lsvg, lslv_line m lslv]"
    using assms by (intro main_reconcile) auto
  then show ?thesis
    using assms(7,8) by (simp add: reconcile_def not_size_def)
qed

theorem missing_size_witness:
  "main (example_module None ''present'' ''maximum'' (1, [], [])) =
     ([''/usr/sbin/lsvg testvg'', ''/usr/sbin/lslv testlv''], FailJson ''No size given.'' None)"
proof -
  let ?m = "example_module None ''present'' ''maximum'' (1, [], [])"
  have 1: "get_bin_path ?m ''lsvg'' = Inr ''/usr/sbin/lsvg''"
    and 2: "get_bin_path ?m ''lslv'' = Inr ''/usr/sbin/lslv''"
    and 3: "run_command ?m (lsvg_line ?m ''/usr/sbin/lsvg'') = (0, example_vg_info, [])"
    and 4: "run_command ?m (lslv_line ?m ''/usr/sbin/lslv'') = (1, [], [])"
    and 5: "p_state (params ?m) = ''present''"
    and 6: "p_size (params ?m) = None"
    by (simp_all add: example_simps)
  from missing_size[OF 1 2 3 example_parse_vg 4 parse_lv_empty 5 6]
  show ?thesis by (simp add: example_simps no_size_given_def)
qed

text \<open>
  Claim C1 explains its scenario by a comparison in allocation units (128 units against 1000).
  Line 282 compares the target size in megabytes with the \<^verbatim>\<open>free\<close> figure parsed from the
  group report.  On the group report of the scenario (free 1000, partition size 4) the size
  \<^verbatim>\<open>2000M\<close> is 500 units, fewer than 1000, and the run still fails for lack of space,
  because 2000 exceeds 1000.
\<close>

theorem create_space_units_counterexample:
  "main (example_module (Some ''2000M'') ''present'' ''maximum'' (1, [], [])) =
     ([''/usr/sbin/lsvg testvg'', ''/usr/sbin/lslv testlv''],
      FailJson ''Not enough free space in volume group testvg: 1000 MB free.'' None) \<and>
   convert_size ''2000M'' = Return 2000 \<and> round_ppsize 2000 4 = Return 2000 \<and>
   (2000 :: int) div 4 = 500 \<and> (500 :: int) < 1000"
  by (simp add: main_def example_simps example_parse_vg target_size_def parse_lv_empty
      reconcile_def not_size_def not_enough_space_def Let_def example_convert example_round
      example_str_int)

text \<open>
  Claim C1, amended.  When the state is \<^verbatim>\<open>present\<close>, the volume report shows no volume and
  a size was given from which the target size \<open>t\<close> (megabytes, rounded up to the group's
  partition size) was computed: the run fails with the message of insufficient free space if and
  only if \<open>t\<close>, in megabytes, exceeds the \<^verbatim>\<open>free\<close> figure parsed from the group report, and
  then it has run the two report commands only; otherwise it runs \<^verbatim>\<open>mklv\<close> for \<open>t\<close>
  megabytes.  Neither side of the comparison is converted to allocation units.  The witness is
  the scenario of the claim: free 1000, partition size 4 and size \<^verbatim>\<open>512M\<close> create a volume
  of 512 megabytes, because 512 does not exceed 1000.
\<close>

theorem create_space_check:
  assumes "get_bin_path m ''lsvg'' = Inr lsvg" and "get_bin_path m ''lslv'' = Inr lslv"
    and "get_bin_path m ''mklv'' = Inr mklv"
    and "run_command m (lsvg_line m lsvg) = (0, vg_info, err1)"
    and "parse_vg vg_info = Return this_vg"
    and "run_command m (lslv_line m lslv) = (rc, lv_info, err2)"
    and "parse_lv lv_info = Return None"
    and "p_state (params m) = ''present''"
    and "p_size (params m) = Some s"
    and "convert_size s = Return n"
    and "round_ppsize n (pp_size_vg this_vg) = Return t"
  shows "(snd (main m) = not_enough_space this_vg \<longleftrightarrow> t > free_vg this_vg) \<and>
         (t > free_vg this_vg \<longrightarrow> fst (main m) = [lsvg_line m lsvg, lslv_line m lslv]) \<and>
         (\<not> t > free_vg this_vg \<longrightarrow>
            main m =
              ([lsvg_line m lsvg, lslv_line m lslv, mklv_line m t mklv],
               case run_command m (mklv_line m t mklv) of
                 (rc', out, err) \<Rightarrow>
                   if rc' = 0
                   then ExitJson True (''Logical volume '' @ p_lv (params m) @ '' created.'')
                   else FailJson (''Creating logical volume '' @ p_lv (params m) @ '' failed.'')
                          (Some (rc', out, err))))"
proof -
  have "target_size (p_size (params m)) this_vg = Return (Some t)"
    using assms(9-11) by (simp add: target_size_Some)
  then have "main m = reconcile m this_vg (Some t) None [lsvg_line m lsvg, lslv_line m lslv]"
    using assms by (intro main_reconcile) auto
  moreover have "\<not> not_size (p_size (params m))"
    using assms(9) convert_size_nonempty[OF assms(10)] by (simp add: not_size_def)
  ultimately have "main m =
      (if t > free_vg this_vg then ([lsvg_line m lsvg, lslv_line m lslv], not_enough_space this_vg)
       else create_lv m t [lsvg_line m lsvg, lslv_line m lslv])"
    using assms(8) by (simp add: reconcile_def)
  then show ?thesis
    using assms(3)
    by (auto simp: create_lv_def run_action_found not_enough_space_def split: prod.splits)
qed

theorem create_space_check_witness:
  "main (example_module (Some ''512M'') ''present'' ''maximum'' (1, [], [])) =
     ([''/usr/sbin/lsvg testvg'', ''/usr/sbin/lslv testlv'',
       '' /usr/sbin/mklv -t jfs2 -y testlv -c 1  -e x  testvg 512M ''],
      ExitJson True ''Logical volume testlv created.'')"
proof -
  let ?m = "example_module (Some ''512M'') ''present'' ''maximum'' (1, [], [])"
  let ?vg = "\<lparr>name_vg = ''testvg'', size_vg = 2000, free_vg = 1000, pp_size_vg = 4\<rparr>"
  have 1: "get_bin_path ?m ''lsvg'' = Inr ''/usr/sbin/lsvg''"
    and 2: "get_bin_path ?m ''lslv'' = Inr ''/usr/sbin/lslv''"
    and 3: "get_bin_path ?m ''mklv'' = Inr ''/usr/sbin/mklv''"
    and 4: "run_command ?m (lsvg_line ?m ''/usr/sbin/lsvg'') = (0, example_vg_info, [])"
    and 5: "run_command ?m (lslv_line ?m ''/usr/sbin/lslv'') = (1, [], [])"
    and 6: "p_state (params ?m) = ''present''"
    and 7: "p_size (params ?m) = Some ''512M''"
    by (simp_all add: example_simps)
  have 8: "round_ppsize 512 (pp_size_vg ?vg) = Return 512"
    by (simp add: example_round)
  from create_space_check[OF 1 2 3 4 example_parse_vg 5 parse_lv_empty 6 7 example_convert(1) 8]
  show ?thesis by (simp add: example_simps example_str_int)
qed



text \<open>
  Claim C7.  When the state is \<^verbatim>\<open>present\<close>, the volume is observed and its policy differs
  from the desired one, the one mutating command of the run is the policy change, whatever the
  target size is and so also when the size differs: the run ends with the report of that command
  and \<^verbatim>\<open>extendlv\<close> is not run.
\<close>

theorem policy_change_first:
  assumes "get_bin_path m ''lsvg'' = Inr lsvg" and "get_bin_path m ''lslv'' = Inr lslv"
    and "get_bin_path m ''chlv'' = Inr chlv"
    and "run_command m (lsvg_line m lsvg) = (0, vg_info, err1)"
    and "parse_vg vg_info = Return this_vg"
    and "target_size (p_size (params m)) this_vg = Return lv_size"
    and "run_command m (lslv_line m lslv) = (rc, lv_info, err2)"
    and "parse_lv lv_info = Return (Some this_lv)"
    and "p_state (params m) = ''present''"
    and "policy_lv this_lv \<noteq> p_policy (params m)"
  shows "main m =
           ([lsvg_line m lsvg, lslv_line m lslv, chlv_line m this_lv chlv],
            case run_command m (chlv_line m this_lv chlv) of
              (rc', out, err) \<Rightarrow>
                if rc' = 0
                then ExitJson True (''Logical volume '' @ p_lv (params m) @ '' policy changed: ''
                                    @ p_policy (params m) @ ''.'')
                else FailJson (''Failed to change logical volume '' @ p_lv (params m)
                               @ '' policy.'') (Some (rc', out, err)))"
proof -
  have "main m = reconcile m this_vg lv_size (Some this_lv) [lsvg_line m lsvg, lslv_line m lslv]"
    using assms by (intro main_reconcile) auto
  also have "\<dots> = change_policy m this_lv [lsvg_line m lsvg, lslv_line m lslv]"
    using assms(9,10) by (simp add: reconcile_def)
  also have "\<dots> =
           ([lsvg_line m lsvg, lslv_line m lslv, chlv_line m this_lv chlv],
            case run_command m (chlv_line m this_lv chlv) of
              (rc', out, err) \<Rightarrow>
                if rc' = 0
                then ExitJson True (''Logical volume '' @ p_lv (params m) @ '' policy changed: ''
                                    @ p_policy (params m) @ ''.'')
                else FailJson (''Failed to change logical volume '' @ p_lv (params m)
                               @ '' policy.'') (Some (rc', out, err)))"
    by (simp add: change_policy_def run_action_found[OF assms(3)] split: prod.splits)
  finally show ?thesis .
qed

theorem policy_change_first_witness:
  "main (example_module (Some ''1G'') ''present'' ''maximum'' (0, example_lv_info, [])) =
     ([''/usr/sbin/lsvg testvg'', ''/usr/sbin/lslv testlv'', '' /usr/sbin/chlv -e x testlv''],
      ExitJson True ''Logical volume testlv policy changed: maximum.'')"
proof -
  let ?m = "example_module (Some ''1G'') ''present'' ''maximum'' (0, example_lv_info, [])"
  let ?vg = "\<lparr>name_vg = ''testvg'', size_vg = 2000, free_vg = 1000, pp_size_vg = 4\<rparr>"
  let ?lv = "\<lparr>name_lv = ''testlv'', vg_lv = ''testvg'', size_lv = 512, policy_lv = ''minimum''\<rparr>"
  have 1: "get_bin_path ?m ''lsvg'' = Inr ''/usr/sbin/lsvg''"
    and 2: "get_bin_path ?m ''lslv'' = Inr ''/usr/sbin/lslv''"
    and 3: "get_bin_path ?m ''chlv'' = Inr ''/usr/sbin/chlv''"
    and 4: "run_command ?m (lsvg_line ?m ''/usr/sbin/lsvg'') = (0, example_vg_info, [])"
    and 5: "run_command ?m (lslv_line ?m ''/usr/sbin/lslv'') = (0, example_lv_info, [])"
    and 6: "p_state (params ?m) = ''present''"
    and 7: "policy_lv ?lv \<noteq> p_policy (params ?m)"
    by (simp_all add: example_simps)
  have 8: "target_size (p_size (params ?m)) ?vg = Return (Some 1024)"
    by (simp add: example_simps target_size_def example_convert example_round)
  from policy_change_first[OF 1 2 3 4 example_parse_vg 8 5 example_parse_lv 6 7]
  show ?thesis by (simp add: example_simps)
qed

lemma reconcile_absent_unparsed:
  "p_state (params m) = ''absent'' \<Longrightarrow> reconcile m this_vg lv_size None cmds = (cmds, NoResult)"
  by (simp add: reconcile_def)

text \<open>
  Claim C3 says that every run ends with one of the three reports.  When the state is
  \<^verbatim>\<open>absent\<close> and \<^verbatim>\<open>lslv\<close> exits with code 0 while its output names no volume, line 270
  does not apply, \<^verbatim>\<open>this_lv\<close> is \<^verbatim>\<open>None\<close>, the branch of line 280 only handles the state
  \<^verbatim>\<open>present\<close>, and \<^verbatim>\<open>main\<close> returns without \<^verbatim>\<open>exit_json\<close> or \<^verbatim>\<open>fail_json\<close>.
\<close>

theorem absent_unparsed_no_result:
  "main (example_module None ''absent'' ''maximum'' (0, [], [])) =
     ([''/usr/sbin/lsvg testvg'', ''/usr/sbin/lslv testlv''], NoResult)"
  by (simp add: main_def example_simps example_parse_vg target_size_def parse_lv_empty
      reconcile_absent_unparsed Let_def)

section \<open>Properties of the parsers\<close>

text \<open>
  Every group of a successful match consists of characters of its class and has at least the
  least length of its repetition.  So \<^verbatim>\<open>int(match[1])\<close> never fails on the digits of a match,
  and a matched name is not empty.
\<close>

lemma match_here_groups:
  "match_here p s = Some gs \<Longrightarrow> list_all2 group_ok (groups_of p) gs"
proof (induction p s arbitrary: gs rule: match_here.induct)
  case (1 s)
  then show ?case by simp
next
  case (2 c as)
  then show ?case by simp
next
  case (3 c as x xs)
  then show ?case by (auto split: if_splits)
next
  case (4 k m cap as)
  then show ?case by (auto simp: open_group_def group_ok_def split: if_splits)
next
  case (5 k m cap as x xs)
  show ?case
  proof (cases "in_cls k x \<and> match_here (Rep k (m - 1) cap # as) xs \<noteq> None")
    case True
    then obtain gs' where inner: "match_here (Rep k (m - 1) cap # as) xs = Some gs'" by auto
    then have gs: "gs = add_char cap x gs'" using 5(4) True by simp
    have ih: "list_all2 group_ok (groups_of (Rep k (m - 1) cap # as)) gs'"
      using 5(1) True inner by simp
    show ?thesis
    proof (cases cap)
      case True
      then obtain g gs'' where g: "gs' = g # gs''" "group_ok (k, m - 1) g"
        "list_all2 group_ok (groups_of as) gs''"
        using ih by (auto simp: list_all2_Cons1)
      have "group_ok (k, m) (x # g)"
        using g(2) \<open>in_cls k x \<and> _\<close> by (auto simp: group_ok_def)
      then show ?thesis using True g gs by (simp add: add_char_def)
    next
      case False
      then show ?thesis using ih gs by (simp add: add_char_def)
    qed
  next
    case False
    then have m: "m = 0" and r: "map_option (open_group cap) (match_here as (x # xs)) = Some gs"
      using 5(4) by (auto split: if_splits option.splits)
    then obtain gs' where gs': "match_here as (x # xs) = Some gs'" "gs = open_group cap gs'"
      by auto
    have "list_all2 group_ok (groups_of as) gs'"
    proof (cases "in_cls k x")
      case True
      then have "match_here (Rep k (m - 1) cap # as) xs = None" using False by simp
      then show ?thesis using 5(2)[OF True _ m gs'(1)] by simp
    next
      case False
      then show ?thesis using 5(3)[OF False m gs'(1)] by simp
    qed
    moreover have "group_ok (k, 0) []" by (simp add: group_ok_def)
    ultimately show ?thesis using gs'(2) m by (simp add: open_group_def)
  qed
qed

lemma search_groups:
  "search p s = Some gs \<Longrightarrow> list_all2 group_ok (groups_of p) gs"
  by (induction p s rule: search.induct) (auto dest: match_here_groups split: option.splits)

lemma groups_of_lit [simp]: "groups_of (lit s @ p) = groups_of p"
  by (induction s) (simp_all add: lit_def)

lemma groups_of_lit_only [simp]: "groups_of (lit s) = []"
  by (induction s) (simp_all add: lit_def)

lemma in_cls_fun [simp]: "in_cls Digit = is_digit" "in_cls Word = is_word" "in_cls Space = is_space"
  by (simp_all add: fun_eq_iff)

lemma groups_of_patterns:
  "groups_of re_lv_name = [(Word, 1), (Word, 1)]"
  "groups_of re_lps = [(Digit, 1)]"
  "groups_of re_pp_size = [(Digit, 1)]"
  "groups_of re_policy = [(Word, 1)]"
  "groups_of re_vg_name = [(Word, 1)]"
  "groups_of re_total = [(Digit, 1)]"
  "groups_of re_free = [(Digit, 1)]"
  by (simp_all add: re_lv_name_def re_lps_def re_pp_size_def re_policy_def re_vg_name_def
      re_total_def re_free_def)

lemma digit_group_int:
  assumes "search p line = Some gs" and "groups_of p = [(Digit, 1)]"
  shows "py_int (group gs 1) = Some (digits_val (group gs 1))"
proof -
  have "list_all2 group_ok [(Digit, 1)] gs"
    using search_groups[OF assms(1)] assms(2) by simp
  then obtain g where "gs = [g]" "group_ok (Digit, 1) g"
    by (auto simp: list_all2_Cons1)
  then show ?thesis
    by (auto simp: group_def group_ok_def intro!: py_int_digits)
qed

lemma word_group_nonempty:
  assumes "search p line = Some gs" and "groups_of p = (Word, 1) # rest"
  shows "group gs 1 \<noteq> []"
proof -
  have "list_all2 group_ok ((Word, 1) # rest) gs"
    using search_groups[OF assms(1)] assms(2) by simp
  then show ?thesis
    by (auto simp: list_all2_Cons1 group_def group_ok_def)
qed

lemma int_group_found:
  assumes "groups_of p = [(Digit, 1)]"
  shows "int_group p line = None \<longleftrightarrow> search p line = None"
  using digit_group_int[OF _ assms] by (auto simp: int_group_def split: option.splits)

lemma latest_None: "latest f xs = None \<longleftrightarrow> (\<forall>x\<in>set xs. f x = None)"
  by (induction xs) (auto split: option.splits)

lemma keep_simps [simp]: "keep None old = old" "keep (Some y) old = Some y" "keep new None = new"
  by (simp_all add: keep_def split: option.splits)

lemma keep_latest: "keep (latest f xs) (keep (f x) old) = keep (latest f (x # xs)) old"
  by (simp add: keep_def split: option.splits)

lemma vg_line_Return:
  "\<exists>w'. vg_line w line = Return w' \<and>
        w_name w' = keep (line_vg_name line) (w_name w) \<and>
        w_size w' = keep (line_vg_size line) (w_size w) \<and>
        w_pp_size w' = keep (line_vg_pp_size line) (w_pp_size w) \<and>
        w_free w' = keep (line_vg_free line) (w_free w)"
proof -
  have t: "search re_total line = Some gs \<Longrightarrow> py_int (group gs 1) \<noteq> None" for gs
    using digit_group_int[of re_total line gs] by (simp add: groups_of_patterns)
  have p: "search re_pp_size line = Some gs \<Longrightarrow> py_int (group gs 1) \<noteq> None" for gs
    using digit_group_int[of re_pp_size line gs] by (simp add: groups_of_patterns)
  have f: "search re_free line = Some gs \<Longrightarrow> py_int (group gs 1) \<noteq> None" for gs
    using digit_group_int[of re_free line gs] by (simp add: groups_of_patterns)
  show ?thesis
    using t p f
    by (auto simp: vg_line_def line_vg_name_def line_vg_size_def line_vg_pp_size_def
        line_vg_free_def int_group_def split: option.splits)
qed

lemma vg_loop_Return:
  "\<exists>w'. vg_loop w lines = Return w' \<and>
        w_name w' = keep (latest line_vg_name lines) (w_name w) \<and>
        w_size w' = keep (latest line_vg_size lines) (w_size w) \<and>
        w_pp_size w' = keep (latest line_vg_pp_size lines) (w_pp_size w) \<and>
        w_free w' = keep (latest line_vg_free lines) (w_free w)"
proof (induction lines arbitrary: w)
  case Nil
  then show ?case by simp
next
  case (Cons line lines)
  obtain w1 where w1: "vg_line w line = Return w1"
    "w_name w1 = keep (line_vg_name line) (w_name w)"
    "w_size w1 = keep (line_vg_size line) (w_size w)"
    "w_pp_size w1 = keep (line_vg_pp_size line) (w_pp_size w)"
    "w_free w1 = keep (line_vg_free line) (w_free w)"
    using vg_line_Return[of w line] by blast
  obtain w' where w': "vg_loop w1 lines = Return w'"
    "w_name w' = keep (latest line_vg_name lines) (w_name w1)"
    "w_size w' = keep (latest line_vg_size lines) (w_size w1)"
    "w_pp_size w' = keep (latest line_vg_pp_size lines) (w_pp_size w1)"
    "w_free w' = keep (latest line_vg_free lines) (w_free w1)"
    using Cons.IH[of w1] by blast
  have "vg_loop w (line # lines) = Return w'" using w1(1) w'(1) by simp
  then show ?case
    using w1(2-5) w'(2-5) by (simp only: keep_latest) simp
qed

lemma parse_vg_latest:
  "parse_vg data =
     (case (latest line_vg_name (splitlines data), latest line_vg_size (splitlines data),
            latest line_vg_free (splitlines data), latest line_vg_pp_size (splitlines data)) of
        (Some name, Some sz, Some free, Some pp_size) \<Rightarrow>
          Return \<lparr>name_vg = name, size_vg = sz, free_vg = free, pp_size_vg = pp_size\<rparr>
      | _ \<Rightarrow> Stop (Uncaught UnboundLocalError))"
proof -
  obtain w' where w': "vg_loop vg_init (splitlines data) = Return w'"
    "w_name w' = keep (latest line_vg_name (splitlines data)) (w_name vg_init)"
    "w_size w' = keep (latest line_vg_size (splitlines data)) (w_size vg_init)"
    "w_pp_size w' = keep (latest line_vg_pp_size (splitlines data)) (w_pp_size vg_init)"
    "w_free w' = keep (latest line_vg_free (splitlines data)) (w_free vg_init)"
    using vg_loop_Return[of vg_init "splitlines data"] by blast
  then show ?thesis
    by (simp add: parse_vg_def vg_return_def vg_init_def)
qed

lemma latest_Some: "latest f xs = Some y \<Longrightarrow> \<exists>x\<in>set xs. f x = Some y"
  by (induction xs) (auto split: option.splits)

lemma latest_found: "x \<in> set xs \<Longrightarrow> f x \<noteq> None \<Longrightarrow> \<exists>y. latest f xs = Some y"
  using latest_None[of f xs] by (cases "latest f xs") auto


text \<open>
  Claim C2, amended.  When each of the four labelled fields of the group report is found on some
  line, in any order of the lines, \<^verbatim>\<open>parse_vg\<close> returns the facts with all four attributes
  set, each to the value of the last line that gives it.
\<close>

theorem parse_vg_found:
  assumes "l1 \<in> set (splitlines data)" and "line_vg_name l1 \<noteq> None"
    and "l2 \<in> set (splitlines data)" and "line_vg_size l2 \<noteq> None"
    and "l3 \<in> set (splitlines data)" and "line_vg_pp_size l3 \<noteq> None"
    and "l4 \<in> set (splitlines data)" and "line_vg_free l4 \<noteq> None"
  shows "\<exists>name sz pp_size free.
           latest line_vg_name (splitlines data) = Some name \<and>
           latest line_vg_size (splitlines data) = Some sz \<and>
           latest line_vg_pp_size (splitlines data) = Some pp_size \<and>
           latest line_vg_free (splitlines data) = Some free \<and>
           parse_vg data =
             Return \<lparr>name_vg = name, size_vg = sz, free_vg = free, pp_size_vg = pp_size\<rparr>"
proof -
  obtain name where 1: "latest line_vg_name (splitlines data) = Some name"
    using latest_found[of _ _ line_vg_name, OF assms(1,2)] by blast
  obtain sz where 2: "latest line_vg_size (splitlines data) = Some sz"
    using latest_found[of _ _ line_vg_size, OF assms(3,4)] by blast
  obtain pp_size where 3: "latest line_vg_pp_size (splitlines data) = Some pp_size"
    using latest_found[of _ _ line_vg_pp_size, OF assms(5,6)] by blast
  obtain free where 4: "latest line_vg_free (splitlines data) = Some free"
    using latest_found[of _ _ line_vg_free, OF assms(7,8)] by blast
  show ?thesis
    using 1 2 3 4 by (simp add: parse_vg_latest)
qed

lemma example_vg_lines:
  "splitlines example_vg_info =
     [''VOLUME GROUP: testvg  VG IDENTIFIER: 00f6'',
      ''VG STATE: active  PP SIZE: 4 megabyte(s)'',
      ''VG PERMISSION: read/write  TOTAL PPs: 500 (2000 megabytes)'',
      ''MAX LVs: 256  FREE PPs: 250 (1000 megabytes)'']"
  by code_simp

lemma example_vg_fields:
  "line_vg_name ''VOLUME GROUP: testvg  VG IDENTIFIER: 00f6'' = Some ''testvg''"
  "line_vg_pp_size ''VG STATE: active  PP SIZE: 4 megabyte(s)'' = Some 4"
  "line_vg_size ''VG PERMISSION: read/write  TOTAL PPs: 500 (2000 megabytes)'' = Some 2000"
  "line_vg_free ''MAX LVs: 256  FREE PPs: 250 (1000 megabytes)'' = Some 1000"
  by code_simp+

theorem parse_vg_found_witness:
  "\<exists>name sz pp_size free.
     latest line_vg_name (splitlines example_vg_info) = Some name \<and>
     latest line_vg_size (splitlines example_vg_info) = Some sz \<and>
     latest line_vg_pp_size (splitlines example_vg_info) = Some pp_size \<and>
     latest line_vg_free (splitlines example_vg_info) = Some free \<and>
     parse_vg example_vg_info =
       Return \<lparr>name_vg = name, size_vg = sz, free_vg = free, pp_size_vg = pp_size\<rparr>"
  by (rule parse_vg_found[of "''VOLUME GROUP: testvg  VG IDENTIFIER: 00f6''" _
        "''VG PERMISSION: read/write  TOTAL PPs: 500 (2000 megabytes)''"
        "''VG STATE: active  PP SIZE: 4 megabyte(s)''"
        "''MAX LVs: 256  FREE PPs: 250 (1000 megabytes)''"])
     (simp_all add: example_vg_lines example_vg_fields)

text \<open>
  Claim C2 says that a field that is not found is left unset in the returned facts.  The
  variables of \<^verbatim>\<open>parse_vg\<close> are unbound before the loop, so on a report without the line of
  the free partitions the \<^verbatim>\<open>return\<close> statement raises \<^verbatim>\<open>UnboundLocalError\<close> and no facts
  are returned.
\<close>

theorem parse_vg_missing_counterexample:
  "latest line_vg_free (splitlines example_vg_info_no_free) = None \<and>
   parse_vg example_vg_info_no_free = Stop (Uncaught UnboundLocalError)"
  by code_simp

lemma lv_line_Return:
  "\<exists>v'. lv_line v line = Return v' \<and>
        v_name v' = keep (line_lv_name line) (v_name v) \<and>
        v_vg v' = keep (line_lv_vg line) (v_vg v) \<and>
        v_lps v' = keep (line_lv_lps line) (v_lps v) \<and>
        v_pp_size v' = keep (line_lv_pp_size line) (v_pp_size v) \<and>
        v_policy v' = keep (line_lv_policy line) (v_policy v)"
proof -
  have l: "search re_lps line = Some gs \<Longrightarrow> py_int (group gs 1) \<noteq> None" for gs
    using digit_group_int[of re_lps line gs] by (simp add: groups_of_patterns)
  have p: "search re_pp_size line = Some gs \<Longrightarrow> py_int (group gs 1) \<noteq> None" for gs
    using digit_group_int[of re_pp_size line gs] by (simp add: groups_of_patterns)
  show ?thesis
    using l p
    by (auto simp: lv_line_def line_lv_name_def line_lv_vg_def line_lv_lps_def
        line_lv_pp_size_def line_lv_policy_def int_group_def split: option.splits)
qed

lemma lv_loop_Return:
  "\<exists>v'. lv_loop v lines = Return v' \<and>
        v_name v' = keep (latest line_lv_name lines) (v_name v) \<and>
        v_vg v' = keep (latest line_lv_vg lines) (v_vg v) \<and>
        v_lps v' = keep (latest line_lv_lps lines) (v_lps v) \<and>
        v_pp_size v' = keep (latest line_lv_pp_size lines) (v_pp_size v) \<and>
        v_policy v' = keep (latest line_lv_policy lines) (v_policy v)"
proof (induction lines arbitrary: v)
  case Nil
  then show ?case by simp
next
  case (Cons line lines)
  obtain v1 where v1: "lv_line v line = Return v1"
    "v_name v1 = keep (line_lv_name line) (v_name v)"
    "v_vg v1 = keep (line_lv_vg line) (v_vg v)"
    "v_lps v1 = keep (line_lv_lps line) (v_lps v)"
    "v_pp_size v1 = keep (line_lv_pp_size line) (v_pp_size v)"
    "v_policy v1 = keep (line_lv_policy line) (v_policy v)"
    using lv_line_Return[of v line] by blast
  obtain v' where v': "lv_loop v1 lines = Return v'"
    "v_name v' = keep (latest line_lv_name lines) (v_name v1)"
    "v_vg v' = keep (latest line_lv_vg lines) (v_vg v1)"
    "v_lps v' = keep (latest line_lv_lps lines) (v_lps v1)"
    "v_pp_size v' = keep (latest line_lv_pp_size lines) (v_pp_size v1)"
    "v_policy v' = keep (latest line_lv_policy lines) (v_policy v1)"
    using Cons.IH[of v1] by blast
  have "lv_loop v (line # lines) = Return v'" using v1(1) v'(1) by simp
  then show ?case
    using v1(2-6) v'(2-6) by (simp only: keep_latest) simp
qed

lemma line_lv_name_nonempty: "line_lv_name line = Some name \<Longrightarrow> name \<noteq> []"
  using word_group_nonempty[of re_lv_name line]
  by (auto simp: line_lv_name_def groups_of_patterns)

lemma parse_lv_latest:
  "parse_lv data =
     (case latest line_lv_name (splitlines data) of
        None \<Rightarrow> Return None
      | Some name \<Rightarrow>
          (case (latest line_lv_vg (splitlines data), latest line_lv_lps (splitlines data),
                 latest line_lv_pp_size (splitlines data),
                 latest line_lv_policy (splitlines data)) of
             (Some vg, Some lps, Some pp_size, Some policy) \<Rightarrow>
               Return (Some \<lparr>name_lv = name, vg_lv = vg, size_lv = lps * pp_size,
                             policy_lv = policy\<rparr>)
           | _ \<Rightarrow> Stop (Uncaught UnboundLocalError)))"
proof -
  obtain v' where v': "lv_loop lv_init (splitlines data) = Return v'"
    "v_name v' = keep (latest line_lv_name (splitlines data)) (v_name lv_init)"
    "v_vg v' = keep (latest line_lv_vg (splitlines data)) (v_vg lv_init)"
    "v_lps v' = keep (latest line_lv_lps (splitlines data)) (v_lps lv_init)"
    "v_pp_size v' = keep (latest line_lv_pp_size (splitlines data)) (v_pp_size lv_init)"
    "v_policy v' = keep (latest line_lv_policy (splitlines data)) (v_policy lv_init)"
    using lv_loop_Return[of lv_init "splitlines data"] by blast
  have ne: "latest line_lv_name (splitlines data) = Some name \<Longrightarrow> name \<noteq> []" for name
    using latest_Some[of line_lv_name "splitlines data" name] line_lv_name_nonempty by blast
  show ?thesis
    using v' ne
    by (auto simp: parse_lv_def lv_return_def lv_init_def split: option.splits)
qed

text \<open>
  Claim C9.  \<^verbatim>\<open>parse_lv\<close> returns \<^verbatim>\<open>None\<close> if and only if no line of the report matches
  the pattern of the volume name and its group; and when it returns facts, their size is the
  product of the partition count and the partition size that the loop read last.
\<close>

theorem parse_lv_result:
  "(parse_lv data = Return None \<longleftrightarrow>
      (\<forall>line\<in>set (splitlines data). search re_lv_name line = None)) \<and>
   (parse_lv data = Return (Some r) \<longrightarrow>
      (\<exists>lps pp_size.
         latest line_lv_lps (splitlines data) = Some lps \<and>
         latest line_lv_pp_size (splitlines data) = Some pp_size \<and>
         size_lv r = lps * pp_size))"
proof -
  have "latest line_lv_name (splitlines data) = None \<longleftrightarrow>
          (\<forall>line\<in>set (splitlines data). search re_lv_name line = None)"
    by (simp add: latest_None line_lv_name_def)
  then show ?thesis
    by (auto simp: parse_lv_latest split: option.splits)
qed

theorem parse_lv_result_witness:
  "parse_lv example_lv_info \<noteq> Return None \<and>
   (\<exists>line\<in>set (splitlines example_lv_info). search re_lv_name line \<noteq> None) \<and>
   (\<exists>lps pp_size.
      latest line_lv_lps (splitlines example_lv_info) = Some lps \<and>
      latest line_lv_pp_size (splitlines example_lv_info) = Some pp_size \<and>
      512 = lps * pp_size)"
  using parse_lv_result[of example_lv_info
      "\<lparr>name_lv = ''testlv'', vg_lv = ''testvg'', size_lv = 512, policy_lv = ''minimum''\<rparr>"]
  by (simp add: example_parse_lv)

end
